theory Spec2Isabelle
  imports Complex_Main
begin

section \<open>JavaScript values\<close>

text \<open>
  The four files of the repository hold five request handlers (two of them in
  src/api/api_fuel-prices.js). They share one extraction
  (\<^verbatim>\<open>fetchAndProcessExcel\<close>, from the parsed rows on, is the same text in each of
  them) and differ in how the spreadsheet is found and in the caching headers.

  A JavaScript number is a double. The finite ones are modelled by the rational
  they denote, beside the three special values. The rounding of a result to the
  nearest double is not modelled: the arithmetic of the model is that of the
  code on whole numbers below \<open>2 ^ 53\<close> in size (sums, differences and products
  of such numbers are exact in a double, and the products the code forms from
  whole days are of that kind over the whole range of valid dates), and what is
  proved about arithmetic is stated on those.
\<close>

datatype jsnum = Num rat | PosInf | NegInf | NaN

text \<open>The time value of a \<^verbatim>\<open>Date\<close>: whole milliseconds since the epoch, or NaN
  (an invalid date).\<close>

datatype timeval = TV int | TNaN

text \<open>
  A cell of a row object of \<^verbatim>\<open>sheet_to_json\<close>: a missing cell is \<^verbatim>\<open>null\<close>
  (\<^verbatim>\<open>defval: null\<close>), a key the sheet has no header for reads as \<^verbatim>\<open>undefined\<close>,
  a date cell is a \<^verbatim>\<open>Date\<close> (\<^verbatim>\<open>cellDates: true\<close>).
\<close>

datatype cell = CUndef | CNull | CBool bool | CNum jsnum | CStr string | CDate timeval

text \<open>
  The row object, with the six keys the code reads:
  \<^verbatim>\<open>MUNICIPIO_acc\<close> is the key spelt with the acute accent, \<^verbatim>\<open>MUNICIPIO\<close> the one
  without, \<^verbatim>\<open>PRECO_MEDIO_REVENDA\<close> the average resale price.
\<close>

record row =
  MUNICIPIO_acc :: cell
  MUNICIPIO :: cell
  PRODUTO :: cell
  PRECO_MEDIO_REVENDA :: cell
  DATA_INICIAL :: cell
  DATA_FINAL :: cell

text \<open>
  Built-ins of the engine whose result the language leaves to the implementation
  (\<^verbatim>\<open>Date.parse\<close> on text that is not in the ISO format, the text of a \<^verbatim>\<open>Date\<close>,
  which names the local time zone) or that the code never looks into (the digits
  of a number) are a parameter of the model.
\<close>

record host =
  Date_parse :: "string \<Rightarrow> timeval"
  Number_toString :: "jsnum \<Rightarrow> string"
  Date_toString :: "timeval \<Rightarrow> string"

subsection \<open>Strings\<close>

text \<open>
  Text is modelled as ASCII text. \<^verbatim>\<open>toUpperCase\<close> maps the 26 small letters and
  leaves every other character as it is; what the engine does beyond ASCII (the
  sharp s becomes SS, U+00A0 and other Unicode spaces count as white space) is
  outside the model.
\<close>

definition upper_char :: "char \<Rightarrow> char" where
  "upper_char c =
     (case map_of (zip ''abcdefghijklmnopqrstuvwxyz'' ''ABCDEFGHIJKLMNOPQRSTUVWXYZ'') c of
        Some u \<Rightarrow> u
      | None \<Rightarrow> c)"

definition toUpperCase :: "string \<Rightarrow> string" where
  "toUpperCase s = map upper_char s"

text \<open>\<^verbatim>\<open>s.startsWith(p)\<close> and \<^verbatim>\<open>s.includes(p)\<close> (\<open>includes\<close> is a keyword of
  Isabelle, hence the suffix).\<close>

fun startsWith :: "string \<Rightarrow> string \<Rightarrow> bool" where
  "startsWith s [] = True"
| "startsWith [] (p # ps) = False"
| "startsWith (c # s) (p # ps) = (c = p \<and> startsWith s ps)"

fun includes_str :: "string \<Rightarrow> string \<Rightarrow> bool" where
  "includes_str [] p = (p = [])"
| "includes_str (c # s) p = (startsWith (c # s) p \<or> includes_str s p)"

subsection \<open>Coercions\<close>

text \<open>Truthiness, and \<^verbatim>\<open>a || b\<close>.\<close>

fun truthy :: "cell \<Rightarrow> bool" where
  "truthy CUndef = False"
| "truthy CNull = False"
| "truthy (CBool b) = b"
| "truthy (CNum (Num q)) = (q \<noteq> 0)"
| "truthy (CNum NaN) = False"
| "truthy (CNum n) = True"
| "truthy (CStr s) = (s \<noteq> [])"
| "truthy (CDate t) = True"

definition js_or :: "cell \<Rightarrow> cell \<Rightarrow> cell" where
  "js_or a b = (if truthy a then a else b)"

text \<open>
  \<^verbatim>\<open>v.toString()\<close>. The code calls it on a truthy value or on a string only, so
  the \<^verbatim>\<open>TypeError\<close> of \<^verbatim>\<open>null\<close> and \<^verbatim>\<open>undefined\<close> is never reached; their
  equations give the text of \<^verbatim>\<open>String(v)\<close>.
\<close>

fun toString :: "host \<Rightarrow> cell \<Rightarrow> string" where
  "toString h CUndef = ''undefined''"
| "toString h CNull = ''null''"
| "toString h (CBool b) = (if b then ''true'' else ''false'')"
| "toString h (CNum n) = Number_toString h n"
| "toString h (CStr s) = s"
| "toString h (CDate t) = Date_toString h t"

subsection \<open>Numbers\<close>

text \<open>Subtraction and multiplication; on finite numbers they are exact here, and
  exact in the code when the operands and the result are whole numbers below
  \<open>2 ^ 53\<close> in size.\<close>

fun js_sub :: "jsnum \<Rightarrow> jsnum \<Rightarrow> jsnum" where
  "js_sub NaN b = NaN"
| "js_sub a NaN = NaN"
| "js_sub (Num a) (Num b) = Num (a - b)"
| "js_sub (Num a) PosInf = NegInf"
| "js_sub (Num a) NegInf = PosInf"
| "js_sub PosInf PosInf = NaN"
| "js_sub PosInf b = PosInf"
| "js_sub NegInf NegInf = NaN"
| "js_sub NegInf b = NegInf"

fun js_neg :: "jsnum \<Rightarrow> jsnum" where
  "js_neg (Num a) = Num (- a)"
| "js_neg PosInf = NegInf"
| "js_neg NegInf = PosInf"
| "js_neg NaN = NaN"

fun js_mul :: "jsnum \<Rightarrow> jsnum \<Rightarrow> jsnum" where
  "js_mul NaN b = NaN"
| "js_mul a NaN = NaN"
| "js_mul (Num a) (Num b) = Num (a * b)"
| "js_mul (Num a) b = (if a = 0 then NaN else if 0 < a then b else js_neg b)"
| "js_mul a (Num b) = (if b = 0 then NaN else if 0 < b then a else js_neg a)"
| "js_mul a b = (if a = b then PosInf else NegInf)"

fun Math_floor :: "jsnum \<Rightarrow> jsnum" where
  "Math_floor (Num a) = Num (of_int \<lfloor>a\<rfloor>)"
| "Math_floor a = a"

fun isNaN_num :: "jsnum \<Rightarrow> bool" where
  "isNaN_num NaN = True"
| "isNaN_num a = False"

text \<open>Reading decimal text: the digits, and the literals of \<^verbatim>\<open>StringToNumber\<close>
  and \<^verbatim>\<open>parseFloat\<close>.\<close>

definition digit_val :: "char \<Rightarrow> int option" where
  "digit_val c = map_of (zip ''0123456789'' [0 .. 9]) c"

definition hex_val :: "char \<Rightarrow> int option" where
  "hex_val c = map_of (zip ''0123456789abcdefABCDEF'' ([0 .. 15] @ [10 .. 15])) c"

definition isDigit :: "char \<Rightarrow> bool" where
  "isDigit c = (digit_val c \<noteq> None)"

text \<open>The value of a run of digits in a radix; \<open>None\<close> when a character is not a
  digit of it.\<close>

fun radix_value :: "int \<Rightarrow> (char \<Rightarrow> int option) \<Rightarrow> string \<Rightarrow> int \<Rightarrow> int option" where
  "radix_value r dv [] acc = Some acc"
| "radix_value r dv (c # cs) acc =
     (case dv c of
        None \<Rightarrow> None
      | Some d \<Rightarrow> if d < r then radix_value r dv cs (acc * r + d) else None)"

definition digits_value :: "string \<Rightarrow> int" where
  "digits_value ds = (case radix_value 10 digit_val ds 0 of Some n \<Rightarrow> n | None \<Rightarrow> 0)"

definition isWhite :: "char \<Rightarrow> bool" where
  "isWhite c = (c \<in> set [CHR 0x09, CHR 0x0A, CHR 0x0B, CHR 0x0C, CHR 0x0D, CHR '' ''])"

definition pow10 :: "int \<Rightarrow> rat" where
  "pow10 e = (if 0 \<le> e then 10 ^ nat e else 1 / 10 ^ nat (- e))"

text \<open>The exponent part \<^verbatim>\<open>[eE][+-]?digits\<close> at the head of the text, when it is
  well formed: its value and the text after it.\<close>

definition scanExponent :: "string \<Rightarrow> (int \<times> string) option" where
  "scanExponent s =
     (case s of
        [] \<Rightarrow> None
      | e # s1 \<Rightarrow>
          if e = CHR ''e'' \<or> e = CHR ''E'' then
            (let neg = (s1 \<noteq> [] \<and> hd s1 = CHR ''-'');
                 s2 = (if s1 \<noteq> [] \<and> (hd s1 = CHR ''-'' \<or> hd s1 = CHR ''+'') then tl s1 else s1);
                 ds = takeWhile isDigit s2
             in if ds = [] then None
                else Some ((if neg then - digits_value ds else digits_value ds),
                           dropWhile isDigit s2))
          else None)"

text \<open>A literal whose value is \<open>2 ^ 1024 - 2 ^ 970\<close> or more reads as
  \<^verbatim>\<open>Infinity\<close> (it rounds beyond the largest double).\<close>

definition literal_value :: "rat \<Rightarrow> jsnum" where
  "literal_value m = (if 2 ^ 1024 - 2 ^ 970 \<le> m then PosInf else Num m)"

text \<open>The longest prefix that is an unsigned \<^verbatim>\<open>StrDecimalLiteral\<close>: its value and
  the text after it.\<close>

definition scanUnsigned :: "string \<Rightarrow> (jsnum \<times> string) option" where
  "scanUnsigned s =
     (if startsWith s ''Infinity'' then Some (PosInf, drop 8 s)
      else
        let ip = takeWhile isDigit s;
            s1 = dropWhile isDigit s;
            dot = (s1 \<noteq> [] \<and> hd s1 = CHR ''.'');
            fp = (if dot then takeWhile isDigit (tl s1) else []);
            s2 = (if dot then dropWhile isDigit (tl s1) else s1)
        in if ip = [] \<and> fp = [] then None
           else
             let m = of_int (digits_value ip) + of_int (digits_value fp) / 10 ^ length fp
             in (case scanExponent s2 of
                   None \<Rightarrow> Some (literal_value m, s2)
                 | Some (e, s3) \<Rightarrow> Some (literal_value (m * pow10 e), s3)))"

definition scanDecimal :: "string \<Rightarrow> (jsnum \<times> string) option" where
  "scanDecimal s =
     (case s of
        [] \<Rightarrow> None
      | c # cs \<Rightarrow>
          if c = CHR ''-'' then map_option (\<lambda>(v, r). (js_neg v, r)) (scanUnsigned cs)
          else if c = CHR ''+'' then scanUnsigned cs
          else scanUnsigned s)"

text \<open>\<^verbatim>\<open>parseFloat\<close> of a string: leading white space is skipped, the longest
  prefix that is a decimal literal is read, and there is NaN when there is none.\<close>

definition parseFloat_str :: "string \<Rightarrow> jsnum" where
  "parseFloat_str s =
     (case scanDecimal (dropWhile isWhite s) of None \<Rightarrow> NaN | Some (v, r) \<Rightarrow> v)"

definition trim :: "string \<Rightarrow> string" where
  "trim s = rev (dropWhile isWhite (rev (dropWhile isWhite s)))"

definition radix_literal :: "int \<Rightarrow> string \<Rightarrow> jsnum" where
  "radix_literal r ds =
     (if ds = [] then NaN
      else case radix_value r hex_val ds 0 of
             None \<Rightarrow> NaN
           | Some n \<Rightarrow> literal_value (of_int n))"

text \<open>\<^verbatim>\<open>StringToNumber\<close>, the conversion \<^verbatim>\<open>isNaN\<close> applies to a string: the
  whole trimmed text must be a numeric literal, the empty text is 0, and the
  prefixes \<^verbatim>\<open>0x\<close>, \<^verbatim>\<open>0o\<close>, \<^verbatim>\<open>0b\<close> are read.\<close>

definition StringToNumber :: "string \<Rightarrow> jsnum" where
  "StringToNumber s =
     (let t = trim s in
      if t = [] then Num 0
      else if startsWith t ''0x'' \<or> startsWith t ''0X'' then radix_literal 16 (drop 2 t)
      else if startsWith t ''0o'' \<or> startsWith t ''0O'' then radix_literal 8 (drop 2 t)
      else if startsWith t ''0b'' \<or> startsWith t ''0B'' then radix_literal 2 (drop 2 t)
      else case scanDecimal t of
             Some (v, []) \<Rightarrow> v
           | _ \<Rightarrow> NaN)"

fun ToNumber :: "cell \<Rightarrow> jsnum" where
  "ToNumber CUndef = NaN"
| "ToNumber CNull = Num 0"
| "ToNumber (CBool b) = Num (if b then 1 else 0)"
| "ToNumber (CNum n) = n"
| "ToNumber (CStr s) = StringToNumber s"
| "ToNumber (CDate (TV t)) = Num (of_int t)"
| "ToNumber (CDate TNaN) = NaN"

definition isNaN :: "cell \<Rightarrow> bool" where
  "isNaN v = isNaN_num (ToNumber v)"

text \<open>
  \<^verbatim>\<open>parseFloat(v)\<close> reads the text of \<^verbatim>\<open>v\<close>. For a number that text is the
  shortest decimal that reads back as the same number, so the number itself is
  the result.
\<close>

fun parseFloat :: "host \<Rightarrow> cell \<Rightarrow> jsnum" where
  "parseFloat h (CNum n) = n"
| "parseFloat h v = parseFloat_str (toString h v)"

subsection \<open>Dates\<close>

text \<open>\<^verbatim>\<open>new Date(n)\<close> for a number: \<^verbatim>\<open>TimeClip\<close> makes the date invalid when
  \<^verbatim>\<open>n\<close> is not finite or beyond 8.64e15 ms, and drops a fraction.\<close>

fun Date_of_number :: "jsnum \<Rightarrow> timeval" where
  "Date_of_number (Num q) =
     (if \<bar>q\<bar> \<le> 8640000000000000 then TV (if 0 \<le> q then \<lfloor>q\<rfloor> else \<lceil>q\<rceil>) else TNaN)"
| "Date_of_number n = TNaN"

text \<open>
  \<^verbatim>\<open>
  function excelDateToJS(serial) {
      if (serial instanceof Date) return serial;
      if (typeof serial === 'string') return new Date(serial);
      const utcDays = Math.floor(serial - 25569);
      return new Date(utcDays * 86400 * 1000);
  }
  \<close>
\<close>

definition excelDateToJS :: "host \<Rightarrow> cell \<Rightarrow> timeval" where
  "excelDateToJS h serial =
     (case serial of
        CDate t \<Rightarrow> t
      | CStr s \<Rightarrow> Date_parse h s
      | _ \<Rightarrow>
          let utcDays = Math_floor (js_sub (ToNumber serial) (Num 25569))
          in Date_of_number (js_mul (js_mul utcDays (Num 86400)) (Num 1000)))"

text \<open>
  \<^verbatim>\<open>date.toISOString()\<close> of a valid time value in the proleptic Gregorian
  calendar, UTC: \<^verbatim>\<open>YYYY-MM-DDTHH:mm:ss.sssZ\<close>, the year with a sign and six digits
  outside 0..9999. The day number is turned into year, month and day by counting
  from 1 March of year 0 in eras of 400 years (146097 days).
\<close>

definition digit_char :: "int \<Rightarrow> char" where
  "digit_char d = ''0123456789'' ! nat (d mod 10)"

text \<open>The decimal digits of a whole number that is not negative.\<close>

function show_nat :: "int \<Rightarrow> string" where
  "show_nat n = (if n < 10 then [digit_char n] else show_nat (n div 10) @ [digit_char n])"
  by pat_completeness auto
termination
  by (relation "measure nat") auto

declare show_nat.simps [simp del]

text \<open>The text of a whole number, as string concatenation and a template make
  it.\<close>

definition show_int :: "int \<Rightarrow> string" where
  "show_int i = (if i < 0 then ''-'' @ show_nat (- i) else show_nat i)"

definition pad :: "nat \<Rightarrow> int \<Rightarrow> string" where
  "pad w n = replicate (w - length (show_nat n)) CHR ''0'' @ show_nat n"

definition civil_from_days :: "int \<Rightarrow> int \<times> int \<times> int" where
  "civil_from_days days =
     (let z = days + 719468;
          era = z div 146097;
          doe = z mod 146097;
          yoe = (doe - doe div 1460 + doe div 36524 - doe div 146096) div 365;
          doy = doe - (365 * yoe + yoe div 4 - yoe div 100);
          mp = (5 * doy + 2) div 153;
          d = doy - (153 * mp + 2) div 5 + 1;
          m = (if mp < 10 then mp + 3 else mp - 9);
          y = yoe + era * 400 + (if m \<le> 2 then 1 else 0)
      in (y, m, d))"

definition show_year :: "int \<Rightarrow> string" where
  "show_year y =
     (if 0 \<le> y \<and> y \<le> 9999 then pad 4 y
      else (if y < 0 then ''-'' else ''+'') @ pad 6 \<bar>y\<bar>)"

definition toISOString :: "int \<Rightarrow> string" where
  "toISOString t =
     (let ms = t mod 86400000 in
      case civil_from_days (t div 86400000) of
        (y, m, d) \<Rightarrow>
          show_year y @ ''-'' @ pad 2 m @ ''-'' @ pad 2 d @ ''T'' @
          pad 2 (ms div 3600000) @ '':'' @ pad 2 (ms div 60000 mod 60) @ '':'' @
          pad 2 (ms div 1000 mod 60) @ ''.'' @ pad 3 (ms mod 1000) @ ''Z'')"

section \<open>The extraction\<close>

text \<open>
  What the code throws: \<^verbatim>\<open>new Error(message)\<close>; the \<^verbatim>\<open>TypeError\<close> of a property
  read on \<^verbatim>\<open>null\<close>; the \<^verbatim>\<open>RangeError\<close> of \<^verbatim>\<open>toISOString\<close> on an invalid date;
  and a rejected \<^verbatim>\<open>fetch\<close> (the network failed, or the timeout aborted it).
\<close>

datatype error = Error string | TypeError | RangeError | FetchRejected

record prices =
  gasolinaComum :: "jsnum option"
  etanol :: "jsnum option"
  diesel :: "jsnum option"
  gnv :: "jsnum option"

text \<open>The object a successful run returns (\<^verbatim>\<open>success: true\<close>); only the variant
  that looks the file up has a \<^verbatim>\<open>sourceUrl\<close>.\<close>

record payload =
  data :: prices
  periodStart :: string
  periodEnd :: string
  sourceUrl :: "string option"
  updatedAt :: string

text \<open>
  \<^verbatim>\<open>
  function formatDate(date) {
      return date.toISOString().split('T')[0];
  }
  \<close>
  The argument is \<^verbatim>\<open>null\<close> (\<open>None\<close>) when the loop that sets it never ran.
\<close>

definition formatDate :: "timeval option \<Rightarrow> error + string" where
  "formatDate date =
     (case date of
        None \<Rightarrow> Inl TypeError
      | Some TNaN \<Rightarrow> Inl RangeError
      | Some (TV t) \<Rightarrow> Inr (takeWhile (\<lambda>c. c \<noteq> CHR ''T'') (toISOString t)))"

text \<open>
  \<^verbatim>\<open>
  const guarulhosData = jsonData.filter(row => {
      const municipio = row['MUNICIPIO_acc'] || row['MUNICIPIO'];
      return municipio && municipio.toString().toUpperCase() === 'GUARULHOS';
  });
  \<close>
\<close>

definition isGuarulhos :: "host \<Rightarrow> row \<Rightarrow> bool" where
  "isGuarulhos h row =
     (let municipio = js_or (MUNICIPIO_acc row) (MUNICIPIO row)
      in truthy municipio \<and> toUpperCase (toString h municipio) = ''GUARULHOS'')"

text \<open>Two dates compared with \<^verbatim>\<open>a > b\<close>, \<^verbatim>\<open>a < b\<close> (by time value; false when one is
  NaN) and \<^verbatim>\<open>a.getTime() === b.getTime()\<close> (false when one is NaN).\<close>

fun date_gt :: "timeval \<Rightarrow> timeval \<Rightarrow> bool" where
  "date_gt (TV a) (TV b) = (a > b)"
| "date_gt a b = False"

fun date_lt :: "timeval \<Rightarrow> timeval \<Rightarrow> bool" where
  "date_lt (TV a) (TV b) = (a < b)"
| "date_lt a b = False"

fun same_time :: "timeval \<Rightarrow> timeval \<Rightarrow> bool" where
  "same_time (TV a) (TV b) = (a = b)"
| "same_time a b = False"

text \<open>
  \<^verbatim>\<open>
  let maxDate = null;
  guarulhosData.forEach(row => {
      const dataFinal = excelDateToJS(row['DATA FINAL']);
      if (!maxDate || dataFinal > maxDate) maxDate = dataFinal;
  });
  \<close>
  A \<^verbatim>\<open>Date\<close> is truthy, also an invalid one.
\<close>

fun maxDateLoop :: "host \<Rightarrow> row list \<Rightarrow> timeval option \<Rightarrow> timeval option" where
  "maxDateLoop h [] maxDate = maxDate"
| "maxDateLoop h (row # rows) maxDate =
     (let dataFinal = excelDateToJS h (DATA_FINAL row)
      in maxDateLoop h rows
           (case maxDate of
              None \<Rightarrow> Some dataFinal
            | Some m \<Rightarrow> if date_gt dataFinal m then Some dataFinal else Some m))"

fun minDateLoop :: "host \<Rightarrow> row list \<Rightarrow> timeval option \<Rightarrow> timeval option" where
  "minDateLoop h [] minDate = minDate"
| "minDateLoop h (row # rows) minDate =
     (let dataInicial = excelDateToJS h (DATA_INICIAL row)
      in minDateLoop h rows
           (case minDate of
              None \<Rightarrow> Some dataInicial
            | Some m \<Rightarrow> if date_lt dataInicial m then Some dataInicial else Some m))"

text \<open>
  \<^verbatim>\<open>preco !== null && !isNaN(preco) ? parseFloat(preco) : null\<close>
\<close>

definition priceValue :: "host \<Rightarrow> cell \<Rightarrow> jsnum option" where
  "priceValue h preco =
     (if preco \<noteq> CNull \<and> \<not> isNaN preco then Some (parseFloat h preco) else None)"

text \<open>The body of the last \<^verbatim>\<open>forEach\<close>: the chain of \<^verbatim>\<open>if\<close> / \<^verbatim>\<open>else if\<close> over the
  upper-cased product name.\<close>

definition produtoOf :: "host \<Rightarrow> row \<Rightarrow> string" where
  "produtoOf h row = toUpperCase (toString h (js_or (PRODUTO row) (CStr [])))"

definition priceStep :: "host \<Rightarrow> row \<Rightarrow> prices \<Rightarrow> prices" where
  "priceStep h row p =
     (let produto = produtoOf h row;
          preco = PRECO_MEDIO_REVENDA row
      in if includes_str produto ''GASOLINA COMUM'' then p\<lparr>gasolinaComum := priceValue h preco\<rparr>
         else if includes_str produto ''ETANOL'' then p\<lparr>etanol := priceValue h preco\<rparr>
         else if includes_str produto ''DIESEL'' \<and> \<not> includes_str produto ''S10''
           then p\<lparr>diesel := priceValue h preco\<rparr>
         else if includes_str produto ''GNV'' then p\<lparr>gnv := priceValue h preco\<rparr>
         else p)"

fun pricesLoop :: "host \<Rightarrow> row list \<Rightarrow> prices \<Rightarrow> prices" where
  "pricesLoop h [] p = p"
| "pricesLoop h (row # rows) p = pricesLoop h rows (priceStep h row p)"

definition noPrices :: prices where
  "noPrices = \<lparr>gasolinaComum = None, etanol = None, diesel = None, gnv = None\<rparr>"

definition latestData :: "host \<Rightarrow> timeval \<Rightarrow> row list \<Rightarrow> row list" where
  "latestData h maxDate guarulhosData =
     filter (\<lambda>row. same_time (excelDateToJS h (DATA_FINAL row)) maxDate) guarulhosData"

text \<open>
  \<^verbatim>\<open>fetchAndProcessExcel\<close> from the rows of \<^verbatim>\<open>sheet_to_json\<close> on. \<open>src\<close> is the
  \<^verbatim>\<open>sourceUrl\<close> of the variant that has one, \<open>now\<close> the clock read by
  \<^verbatim>\<open>new Date()\<close> for \<^verbatim>\<open>updatedAt\<close>. The object literal evaluates
  \<^verbatim>\<open>formatDate(minDate)\<close> before \<^verbatim>\<open>formatDate(maxDate)\<close>.
\<close>

definition processRows :: "host \<Rightarrow> string option \<Rightarrow> int \<Rightarrow> row list \<Rightarrow> error + payload" where
  "processRows h src now jsonData =
     (let guarulhosData = filter (isGuarulhos h) jsonData in
      if length guarulhosData = 0 then Inl (Error ''Nenhum dado encontrado para Guarulhos'')
      else
        case maxDateLoop h guarulhosData None of
          None \<Rightarrow> Inl TypeError
        | Some maxDate \<Rightarrow>
            let latest = latestData h maxDate guarulhosData;
                minDate = minDateLoop h latest None;
                pr = pricesLoop h latest noPrices
            in case formatDate minDate of
                 Inl e \<Rightarrow> Inl e
               | Inr ps \<Rightarrow>
                   (case formatDate (Some maxDate) of
                      Inl e \<Rightarrow> Inl e
                    | Inr pe \<Rightarrow>
                        Inr \<lparr>data = pr, periodStart = ps, periodEnd = pe,
                             sourceUrl = src, updatedAt = toISOString now\<rparr>))"

section \<open>Finding the latest spreadsheet (src/api/fuel-prices.js)\<close>

subsection \<open>The two regular expressions\<close>

text \<open>
  \<^verbatim>\<open>/href="([^"]*semanal-municipio-(\d{4})-(\d{4})\.xlsx)"/gi\<close> and
  \<^verbatim>\<open>/semanal-municipio-(\d{4})-(\d{4})\.xlsx/gi\<close> are built from four kinds of item:
  a literal character (compared without case, flag \<^verbatim>\<open>i\<close>), a digit \<^verbatim>\<open>\d\<close>, a
  greedy \<^verbatim>\<open>[^c]*\<close>, and the border of a capture group. The matcher backtracks as
  the engine does: \<^verbatim>\<open>[^c]*\<close> first takes all it can and gives characters back
  one at a time. At each border it notes the text still to be read, from which
  the captured texts are cut.
\<close>

datatype item = Lit char | Digit | StarNot char | Border

fun matchHere :: "item list \<Rightarrow> string \<Rightarrow> string list \<Rightarrow> (string list \<times> string) option" where
  "matchHere [] s bs = Some (bs, s)"
| "matchHere (Border # its) s bs = matchHere its s (bs @ [s])"
| "matchHere (Lit c # its) [] bs = None"
| "matchHere (Lit c # its) (x # s) bs =
     (if upper_char x = upper_char c then matchHere its s bs else None)"
| "matchHere (Digit # its) [] bs = None"
| "matchHere (Digit # its) (x # s) bs = (if isDigit x then matchHere its s bs else None)"
| "matchHere (StarNot c # its) [] bs = matchHere its [] bs"
| "matchHere (StarNot c # its) (x # s) bs =
     (if x \<noteq> c then
        (case matchHere (StarNot c # its) s bs of
           Some r \<Rightarrow> Some r
         | None \<Rightarrow> matchHere its (x # s) bs)
      else matchHere its (x # s) bs)"

text \<open>The leftmost match at or after the head of the text (one call of
  \<^verbatim>\<open>exec\<close> from \<^verbatim>\<open>lastIndex\<close>): the borders and the text after the match.\<close>

fun firstMatch :: "item list \<Rightarrow> string \<Rightarrow> (string list \<times> string) option" where
  "firstMatch p [] = matchHere p [] []"
| "firstMatch p (x # s) =
     (case matchHere p (x # s) [] of
        Some r \<Rightarrow> Some r
      | None \<Rightarrow> firstMatch p s)"

definition lits :: "string \<Rightarrow> item list" where
  "lits s = map Lit s"

definition dq :: char where
  "dq = CHR 0x22"

text \<open>Both expressions start with a literal: the first character and the rest.\<close>

definition municipioPattern :: "char \<times> item list" where
  "municipioPattern =
     (CHR ''h'',
      lits ''ref='' @ [Lit dq, Border, StarNot dq] @ lits ''semanal-municipio-'' @
      [Border, Digit, Digit, Digit, Digit, Border, Lit CHR ''-'',
       Border, Digit, Digit, Digit, Digit, Border] @
      lits ''.xlsx'' @ [Border, Lit dq])"

definition altPattern :: "char \<times> item list" where
  "altPattern =
     (CHR ''s'',
      lits ''emanal-municipio-'' @
      [Border, Digit, Digit, Digit, Digit, Border, Lit CHR ''-'',
       Border, Digit, Digit, Digit, Digit, Border] @
      lits ''.xlsx'')"

lemma matchHere_length:
  "matchHere p s bs = Some (bs', rest) \<Longrightarrow> length rest \<le> length s"
proof (induction p s bs arbitrary: bs' rest rule: matchHere.induct)
  case (8 c its x s bs)
  show ?case
  proof (cases "x \<noteq> c")
    case True
    note neq = this
    show ?thesis
    proof (cases "matchHere (StarNot c # its) s bs")
      case None
      with "8.prems" neq have "matchHere its (x # s) bs = Some (bs', rest)" by simp
      with "8.IH"(2)[OF neq None] show ?thesis .
    next
      case (Some r)
      with "8.prems" neq have "matchHere (StarNot c # its) s bs = Some (bs', rest)" by simp
      with "8.IH"(1)[OF neq] have "length rest \<le> length s" .
      then show ?thesis by simp
    qed
  next
    case False
    with "8.prems" have "matchHere its (x # s) bs = Some (bs', rest)" by simp
    with "8.IH"(3)[OF False] show ?thesis .
  qed
qed (fastforce split: if_splits)+

lemma firstMatch_shorter:
  "firstMatch (Lit c # its) s = Some (bs, rest) \<Longrightarrow> length rest < length s"
proof (induction s)
  case Nil
  then show ?case by simp
next
  case (Cons x s)
  show ?case
  proof (cases "matchHere (Lit c # its) (x # s) []")
    case None
    with Cons show ?thesis by fastforce
  next
    case (Some r)
    with Cons.prems have "matchHere its s [] = Some (bs, rest)"
      by (simp split: if_splits)
    then have "length rest \<le> length s" by (rule matchHere_length)
    then show ?thesis by simp
  qed
qed

text \<open>
  \<^verbatim>\<open>while ((match = pattern.exec(html)) !== null) { ... }\<close>: every match in turn,
  each search starting where the match before ended.
\<close>

function execAll :: "char \<Rightarrow> item list \<Rightarrow> string \<Rightarrow> string list list" where
  "execAll c its s =
     (case firstMatch (Lit c # its) s of
        None \<Rightarrow> []
      | Some (bs, rest) \<Rightarrow> bs # execAll c its rest)"
  by pat_completeness auto
termination
  by (relation "measure (\<lambda>(c, its, s). length s)") (auto dest: firstMatch_shorter)

declare execAll.simps [simp del]

text \<open>The text between two borders.\<close>

definition between :: "string \<Rightarrow> string \<Rightarrow> string" where
  "between a b = take (length a - length b) a"

text \<open>\<^verbatim>\<open>parseInt\<close> of a capture of \<^verbatim>\<open>(\d{4})\<close>: the text is four decimal digits,
  so the result is their value (the NaN of a text with no digit cannot arise).\<close>

definition parseInt :: "string \<Rightarrow> int" where
  "parseInt s = digits_value (takeWhile isDigit s)"

record match =
  url :: string
  startYear :: int
  endYear :: int

definition shlp_base :: string where
  "shlp_base = ''https://www.gov.br/anp/pt-br/assuntos/precos-e-defesa-da-concorrencia/precos/precos-revenda-e-de-distribuicao-combustiveis/shlp/semanal/''"

text \<open>The objects pushed on \<^verbatim>\<open>matches\<close> by the first and by the second loop.
  A match of an expression has all its borders, so the last case of each
  is never taken.\<close>

definition hrefMatch :: "string list \<Rightarrow> match option" where
  "hrefMatch bs =
     (case bs of
        [o1, o2, c2, o3, c3, c1] \<Rightarrow>
          Some \<lparr>url = between o1 c1, startYear = parseInt (between o2 c2),
                endYear = parseInt (between o3 c3)\<rparr>
      | _ \<Rightarrow> None)"

definition altMatch :: "string list \<Rightarrow> match option" where
  "altMatch bs =
     (case bs of
        [o1, c1, o2, c2] \<Rightarrow>
          Some \<lparr>url = shlp_base @ ''semanal-municipio-'' @ between o1 c1 @ ''-'' @
                      between o2 c2 @ ''.xlsx'',
                startYear = parseInt (between o1 c1),
                endYear = parseInt (between o2 c2)\<rparr>
      | _ \<Rightarrow> None)"

definition hrefMatches :: "string \<Rightarrow> match list" where
  "hrefMatches html =
     List.map_filter hrefMatch (execAll (fst municipioPattern) (snd municipioPattern) html)"

definition altMatches :: "string \<Rightarrow> match list" where
  "altMatches html =
     List.map_filter altMatch (execAll (fst altPattern) (snd altPattern) html)"

subsection \<open>The choice among the matches\<close>

text \<open>
  \<^verbatim>\<open>matches.sort((a, b) => b.endYear - a.endYear || b.startYear - a.startYear)\<close>.
  \<^verbatim>\<open>Array.prototype.sort\<close> is stable; it is modelled by insertion sort.
\<close>

definition compareFn :: "match \<Rightarrow> match \<Rightarrow> int" where
  "compareFn a b =
     (if endYear b - endYear a \<noteq> 0 then endYear b - endYear a
      else startYear b - startYear a)"

fun insort_by :: "('a \<Rightarrow> 'a \<Rightarrow> int) \<Rightarrow> 'a \<Rightarrow> 'a list \<Rightarrow> 'a list" where
  "insort_by cmp x [] = [x]"
| "insort_by cmp x (y # ys) =
     (if cmp x y \<le> 0 then x # y # ys else y # insort_by cmp x ys)"

definition sort_by :: "('a \<Rightarrow> 'a \<Rightarrow> int) \<Rightarrow> 'a list \<Rightarrow> 'a list" where
  "sort_by cmp xs = foldr (insort_by cmp) xs []"

text \<open>The matches the page yields: those of the first expression, and those of
  the second only when the first has none.\<close>

definition collectMatches :: "string \<Rightarrow> match list" where
  "collectMatches html =
     (let matches = hrefMatches html
      in if length matches = 0 then altMatches html else matches)"

text \<open>The entry \<^verbatim>\<open>matches[0]\<close> after the sort; the read of \<^verbatim>\<open>.url\<close> on an empty
  array would be a \<^verbatim>\<open>TypeError\<close>, but the empty array has thrown before.\<close>

definition selectLatest :: "string \<Rightarrow> error + match" where
  "selectLatest html =
     (let matches = collectMatches html in
      if length matches = 0 then Inl (Error ''No municipality Excel files found on ANP page'')
      else case sort_by compareFn matches of
             [] \<Rightarrow> Inl TypeError
           | m # ms \<Rightarrow> Inr m)"

definition absoluteUrl :: "string \<Rightarrow> string" where
  "absoluteUrl latestUrl =
     (if startsWith latestUrl ''/'' then ''https://www.gov.br'' @ latestUrl
      else if \<not> startsWith latestUrl ''http'' then shlp_base @ latestUrl
      else latestUrl)"

text \<open>The outcome of a \<^verbatim>\<open>fetch\<close>: rejected, or a response with its status and
  its body (already read: the page text, or the rows of the first sheet).\<close>

datatype 'a fetched = Rejected | Response int 'a

definition ok :: "int \<Rightarrow> bool" where
  "ok st = (200 \<le> st \<and> st \<le> 299)"

definition findLatestExcelUrl :: "string fetched \<Rightarrow> error + string" where
  "findLatestExcelUrl page =
     (case page of
        Rejected \<Rightarrow> Inl FetchRejected
      | Response st html \<Rightarrow>
          if \<not> ok st then Inl (Error (''Failed to fetch ANP page: '' @ show_int st))
          else case selectLatest html of
                 Inl e \<Rightarrow> Inl e
               | Inr m \<Rightarrow> Inr (absoluteUrl (url m)))"

section \<open>Fetching, and the request handlers\<close>

text \<open>
  \<^verbatim>\<open>fetchAndProcessExcel\<close> of the four files with the fixed address: the outcome of
  the \<^verbatim>\<open>fetch\<close> is an argument, its body the rows that \<^verbatim>\<open>XLSX.read\<close> and
  \<^verbatim>\<open>sheet_to_json\<close> make of the bytes.
\<close>

definition fetchAndProcessExcel :: "host \<Rightarrow> int \<Rightarrow> row list fetched \<Rightarrow> error + payload" where
  "fetchAndProcessExcel h now response =
     (case response of
        Rejected \<Rightarrow> Inl FetchRejected
      | Response st jsonData \<Rightarrow>
          if \<not> ok st then Inl (Error (''Failed to fetch Excel: '' @ show_int st))
          else processRows h None now jsonData)"

text \<open>The one of src/api/fuel-prices.js first looks the address up on the page;
  \<open>web\<close> gives the outcome of fetching an address.\<close>

definition fetchAndProcessExcel_latest ::
  "host \<Rightarrow> int \<Rightarrow> string fetched \<Rightarrow> (string \<Rightarrow> row list fetched) \<Rightarrow> error + payload" where
  "fetchAndProcessExcel_latest h now page web =
     (case findLatestExcelUrl page of
        Inl e \<Rightarrow> Inl e
      | Inr excelUrl \<Rightarrow>
          (case web excelUrl of
             Rejected \<Rightarrow> Inl FetchRejected
           | Response st jsonData \<Rightarrow>
               if \<not> ok st then Inl (Error (''Failed to fetch Excel: '' @ show_int st))
               else processRows h (Some excelUrl) now jsonData))"

subsection \<open>Seconds until 07:00\<close>

text \<open>
  \<^verbatim>\<open>
  function getSecondsUntil7AM() {
      const now = new Date();
      const target = new Date(now);
      target.setHours(7, 0, 0, 0);
      if (now >= target) {
          target.setDate(target.getDate() + 1);
      }
      return Math.max(60, Math.floor((target - now) / 1000));
  }
  \<close>
  \<open>now\<close> is the clock in milliseconds. \<^verbatim>\<open>setHours\<close> and \<^verbatim>\<open>setDate\<close> work on the
  local time of the engine, which is given by the offset of the zone from UTC:
  \<open>LocalTZA_utc z t\<close> at the instant \<open>t\<close>, and \<open>LocalTZA_local z lt\<close> for a local
  time \<open>lt\<close> (the abstract operation \<^verbatim>\<open>LocalTZA(t, isUTC)\<close> of the language; the two
  differ around a change of the clocks).
\<close>

record zone =
  LocalTZA_utc :: "int \<Rightarrow> int"
  LocalTZA_local :: "int \<Rightarrow> int"

definition LocalTime :: "zone \<Rightarrow> int \<Rightarrow> int" where
  "LocalTime z t = t + LocalTZA_utc z t"

definition UTC :: "zone \<Rightarrow> int \<Rightarrow> int" where
  "UTC z lt = lt - LocalTZA_local z lt"

text \<open>\<^verbatim>\<open>target.setHours(7, 0, 0, 0)\<close>: 07:00:00.000 on the local day of the date.\<close>

definition setHours7 :: "zone \<Rightarrow> int \<Rightarrow> int" where
  "setHours7 z t = UTC z (LocalTime z t div 86400000 * 86400000 + 7 * 3600000)"

text \<open>\<^verbatim>\<open>target.setDate(target.getDate() + 1)\<close>: the next day of the local calendar
  at the same local time of day, which is the local time plus one day.\<close>

definition setDateNext :: "zone \<Rightarrow> int \<Rightarrow> int" where
  "setDateNext z t = UTC z (LocalTime z t + 86400000)"

definition target7AM :: "zone \<Rightarrow> int \<Rightarrow> int" where
  "target7AM z now =
     (let target = setHours7 z now
      in if now \<ge> target then setDateNext z target else target)"

definition getSecondsUntil7AM :: "zone \<Rightarrow> int \<Rightarrow> int" where
  "getSecondsUntil7AM z now = max 60 ((target7AM z now - now) div 1000)"

text \<open>
  The second handler of src/api/api_fuel-prices.js ends with
  \<^verbatim>\<open>
      const diffMs = target - now;
      const diffSeconds = Math.floor(diffMs / 1000);
      return Math.max(60, Math.min(diffSeconds, 86400));
  \<close>
\<close>

definition getSecondsUntil7AM_capped :: "zone \<Rightarrow> int \<Rightarrow> int" where
  "getSecondsUntil7AM_capped z now =
     (let diffMs = target7AM z now - now;
          diffSeconds = diffMs div 1000
      in max 60 (min diffSeconds 86400))"

subsection \<open>The handlers\<close>

text \<open>Of the request, the method and the value of \<^verbatim>\<open>req.query.refresh\<close> (absent, a
  string, or a list when the parameter is repeated).\<close>

datatype qval = QAbsent | QStr string | QList "string list"

record request =
  req_method :: string
  req_refresh :: qval

datatype resbody = NoBody | Success payload | Failure error

record response =
  status :: int
  headers :: "string \<rightharpoonup> string"
  body :: resbody

definition cors :: "string \<rightharpoonup> string" where
  "cors = [''Access-Control-Allow-Origin'' \<mapsto> ''*'',
           ''Access-Control-Allow-Methods'' \<mapsto> ''GET, OPTIONS'',
           ''Access-Control-Allow-Headers'' \<mapsto> ''Content-Type'']"

definition noStore :: string where
  "noStore = ''no-cache, no-store, must-revalidate''"

text \<open>In each handler \<open>result\<close> is the outcome of \<^verbatim>\<open>await fetchAndProcessExcel()\<close>,
  which runs only when the method is not \<^verbatim>\<open>OPTIONS\<close>.\<close>

text \<open>src/mnt_fuel-prices.js: no \<^verbatim>\<open>Cache-Control\<close>.\<close>

definition handler_mnt :: "request \<Rightarrow> error + payload \<Rightarrow> response" where
  "handler_mnt req result =
     (if req_method req = ''OPTIONS'' then \<lparr>status = 200, headers = cors, body = NoBody\<rparr>
      else case result of
             Inr r \<Rightarrow> \<lparr>status = 200, headers = cors, body = Success r\<rparr>
           | Inl e \<Rightarrow> \<lparr>status = 500, headers = cors, body = Failure e\<rparr>)"

text \<open>src/api_fuel-prices.js: one fixed \<^verbatim>\<open>Cache-Control\<close>, set before anything
  else.\<close>

definition handler_hourly :: "request \<Rightarrow> error + payload \<Rightarrow> response" where
  "handler_hourly req result =
     (let hs = cors(''Cache-Control'' \<mapsto> ''s-maxage=3600, stale-while-revalidate'')
      in if req_method req = ''OPTIONS'' then \<lparr>status = 200, headers = hs, body = NoBody\<rparr>
         else case result of
                Inr r \<Rightarrow> \<lparr>status = 200, headers = hs, body = Success r\<rparr>
              | Inl e \<Rightarrow> \<lparr>status = 500, headers = hs, body = Failure e\<rparr>)"

text \<open>src/api/fuel-prices.js and the first handler of src/api/api_fuel-prices.js
  (the same text).\<close>

definition handler_until7 :: "zone \<Rightarrow> int \<Rightarrow> request \<Rightarrow> error + payload \<Rightarrow> response" where
  "handler_until7 z now req result =
     (if req_method req = ''OPTIONS'' then \<lparr>status = 200, headers = cors, body = NoBody\<rparr>
      else
        let forceRefresh = (req_refresh req = QStr ''true'') in
        case result of
          Inr r \<Rightarrow>
            let cacheSeconds = getSecondsUntil7AM z now in
            \<lparr>status = 200,
             headers =
               (if \<not> forceRefresh
                then cors(''Cache-Control'' \<mapsto>
                       ''s-maxage='' @ show_int cacheSeconds @ '', stale-while-revalidate=300'')
                else cors(''Cache-Control'' \<mapsto> noStore)),
             body = Success r\<rparr>
        | Inl e \<Rightarrow>
            \<lparr>status = 500, headers = cors(''Cache-Control'' \<mapsto> noStore), body = Failure e\<rparr>)"

text \<open>The second handler of src/api/api_fuel-prices.js.\<close>

definition handler_until7_capped :: "zone \<Rightarrow> int \<Rightarrow> request \<Rightarrow> error + payload \<Rightarrow> response" where
  "handler_until7_capped z now req result =
     (if req_method req = ''OPTIONS'' then \<lparr>status = 200, headers = cors, body = NoBody\<rparr>
      else
        let forceRefresh = (req_refresh req = QStr ''true'') in
        case result of
          Inr r \<Rightarrow>
            let cacheSeconds = getSecondsUntil7AM_capped z now in
            \<lparr>status = 200,
             headers =
               (if \<not> forceRefresh
                then cors(''Cache-Control'' \<mapsto>
                       ''s-maxage='' @ show_int cacheSeconds @ '', stale-while-revalidate=60'')
                else cors(''Cache-Control'' \<mapsto> noStore)),
             body = Success r\<rparr>
        | Inl e \<Rightarrow>
            \<lparr>status = 500, headers = cors(''Cache-Control'' \<mapsto> noStore), body = Failure e\<rparr>)"

section \<open>Notions of the specification\<close>

text \<open>The time value of a valid date, and the period of a row as the code reads
  it.\<close>

definition timeOf :: "timeval \<Rightarrow> int" where
  "timeOf t = (case t of TV a \<Rightarrow> a | TNaN \<Rightarrow> 0)"

definition endTime :: "host \<Rightarrow> row \<Rightarrow> int" where
  "endTime h r = timeOf (excelDateToJS h (DATA_FINAL r))"

definition startTime :: "host \<Rightarrow> row \<Rightarrow> int" where
  "startTime h r = timeOf (excelDateToJS h (DATA_INICIAL r))"

definition isoDate :: "int \<Rightarrow> string" where
  "isoDate t = takeWhile (\<lambda>c. c \<noteq> CHR ''T'') (toISOString t)"

text \<open>The rows of the latest period: those whose period end is the maximum.\<close>

definition spec_latest :: "host \<Rightarrow> row list \<Rightarrow> row list" where
  "spec_latest h g = filter (\<lambda>r. endTime h r = Max (endTime h ` set g)) g"

text \<open>The four categories in the order of their priority, and the test of each
  on the upper-cased product name.\<close>

datatype category = GasolinaComum | Etanol | Diesel | Gnv

fun spec_matches :: "string \<Rightarrow> category \<Rightarrow> bool" where
  "spec_matches name GasolinaComum = includes_str name ''GASOLINA COMUM''"
| "spec_matches name Etanol = includes_str name ''ETANOL''"
| "spec_matches name Diesel = (includes_str name ''DIESEL'' \<and> \<not> includes_str name ''S10'')"
| "spec_matches name Gnv = includes_str name ''GNV''"

definition spec_category :: "string \<Rightarrow> category option" where
  "spec_category name = find (spec_matches name) [GasolinaComum, Etanol, Diesel, Gnv]"

fun field :: "category \<Rightarrow> prices \<Rightarrow> jsnum option" where
  "field GasolinaComum p = gasolinaComum p"
| "field Etanol p = etanol p"
| "field Diesel p = diesel p"
| "field Gnv p = gnv p"

fun set_field :: "category \<Rightarrow> jsnum option \<Rightarrow> prices \<Rightarrow> prices" where
  "set_field GasolinaComum v p = p\<lparr>gasolinaComum := v\<rparr>"
| "set_field Etanol v p = p\<lparr>etanol := v\<rparr>"
| "set_field Diesel v p = p\<lparr>diesel := v\<rparr>"
| "set_field Gnv v p = p\<lparr>gnv := v\<rparr>"

text \<open>What a run yields apart from \<^verbatim>\<open>updatedAt\<close>.\<close>

definition extracted :: "error + payload \<Rightarrow> error + prices \<times> string \<times> string" where
  "extracted res = map_sum id (\<lambda>p. (data p, periodStart p, periodEnd p)) res"

text \<open>A file is at least as recent as another: a later end year, or the same end
  year and a start year not earlier.\<close>

definition spec_as_recent :: "match \<Rightarrow> match \<Rightarrow> bool" where
  "spec_as_recent m m' =
     (endYear m' < endYear m \<or> (endYear m' = endYear m \<and> startYear m' \<le> startYear m))"

text \<open>The instant at which the local clock shows 07:00 on the local day \<open>d\<close>
  (days since the epoch), and the next such instant after \<open>now\<close>: that of the
  local day of \<open>now\<close> when it is still ahead, and else that of the next local
  day.\<close>

definition spec_0700 :: "zone \<Rightarrow> int \<Rightarrow> int" where
  "spec_0700 z d = UTC z (d * 86400000 + 25200000)"

definition localDay :: "zone \<Rightarrow> int \<Rightarrow> int" where
  "localDay z t = LocalTime z t div 86400000"

definition spec_next_0700 :: "zone \<Rightarrow> int \<Rightarrow> int" where
  "spec_next_0700 z now =
     (if now < spec_0700 z (localDay z now) then spec_0700 z (localDay z now)
      else spec_0700 z (localDay z now + 1))"

subsection \<open>Inputs of the examples\<close>

text \<open>A host for the examples, which have text in the text columns and dates or
  serials in the date columns only: it reads no date text.\<close>

definition sample_host :: host where
  "sample_host =
     \<lparr>Date_parse = (\<lambda>s. TNaN), Number_toString = (\<lambda>n. ''0''),
      Date_toString = (\<lambda>t. ''Invalid Date'')\<rparr>"

definition mkRow :: "string \<Rightarrow> string \<Rightarrow> cell \<Rightarrow> cell \<Rightarrow> cell \<Rightarrow> row" where
  "mkRow municipio produto preco dataInicial dataFinal =
     \<lparr>MUNICIPIO_acc = CStr municipio, MUNICIPIO = CUndef, PRODUTO = CStr produto,
      PRECO_MEDIO_REVENDA = preco, DATA_INICIAL = dataInicial, DATA_FINAL = dataFinal\<rparr>"

text \<open>The days 2024-04-28, 2024-05-01, 2024-05-05 and 2024-05-08.\<close>

definition d0428 :: cell where "d0428 = CDate (TV 1714262400000)"
definition d0501 :: cell where "d0501 = CDate (TV 1714521600000)"
definition d0505 :: cell where "d0505 = CDate (TV 1714867200000)"
definition d0508 :: cell where "d0508 = CDate (TV 1715126400000)"

definition getReq :: request where
  "getReq = \<lparr>req_method = ''GET'', req_refresh = QAbsent\<rparr>"

definition href :: "string \<Rightarrow> string" where
  "href u = ''<a href='' @ [dq] @ u @ [dq] @ ''>planilha</a>''"

text \<open>The number of capture-group borders of an expression.\<close>

definition borders :: "item list \<Rightarrow> nat" where
  "borders p = length (filter (\<lambda>i. i = Border) p)"

definition c1_rows :: "row list" where
  "c1_rows =
     [mkRow ''GUARULHOS'' ''GNV'' (CNum (Num 4)) d0428 d0501,
      mkRow ''Guarulhos'' ''ETANOL HIDRATADO'' (CNum (Num (379 / 100))) d0505 d0508,
      mkRow ''SAO PAULO'' ''GASOLINA COMUM'' (CNum (Num 5)) d0505 d0508]"

definition c1_bad_rows :: "row list" where
  "c1_bad_rows =
     [mkRow ''GUARULHOS'' ''GNV'' (CNum (Num 4)) d0505 (CNum (Num 1000000000)),
      mkRow ''GUARULHOS'' ''ETANOL HIDRATADO'' (CNum (Num (379 / 100))) d0505 d0508]"

definition c3_rows :: "row list" where
  "c3_rows =
     [mkRow ''SAO PAULO'' ''GASOLINA COMUM'' (CNum (Num 5)) d0505 d0508,
      mkRow ''GUARULHOS - SP'' ''GNV'' (CNum (Num 4)) d0505 d0508]"

definition c2_row :: row where
  "c2_row = mkRow ''GUARULHOS'' ''Etanol e diesel'' (CNum (Num 4)) d0505 d0508"

definition c10_row :: row where
  "c10_row = mkRow ''GUARULHOS'' ''GASOLINA COMUM C/ ETANOL'' (CNum (Num 5)) d0505 d0508"


definition c5_rows :: "row list" where
  "c5_rows = [mkRow ''GUARULHOS'' ''GASOLINA COMUM'' (CStr []) d0505 d0508]"

definition optionsReq :: request where
  "optionsReq = \<lparr>req_method = ''OPTIONS'', req_refresh = QAbsent\<rparr>"

text \<open>Two pages with the same three links in opposite orders, a page that names a
  file outside any \<^verbatim>\<open>href\<close>, and a page that names none.\<close>

definition page_a :: string where
  "page_a =
     href ''/anp/arquivos/semanal-municipio-2023-2025.xlsx'' @
     href ''https://www.gov.br/anp/arquivos/Semanal-Municipio-2024-2025.xlsx'' @
     href ''semanal-municipio-2022-2023.xlsx''"

definition page_b :: string where
  "page_b =
     href ''semanal-municipio-2022-2023.xlsx'' @
     href ''https://www.gov.br/anp/arquivos/Semanal-Municipio-2024-2025.xlsx'' @
     href ''/anp/arquivos/semanal-municipio-2023-2025.xlsx''"

definition page_c :: string where
  "page_c = ''<p>semanal-municipio-2022-2023.xlsx, semanal-municipio-2024-2025.xlsx</p>''"

definition page_d :: string where
  "page_d = ''<p>Em manutencao</p>''"

text \<open>A zone at a fixed offset, and a zone whose clocks go back one hour, from one
  hour east of UTC to UTC, at 2024-10-27 01:00 UTC (a repeated local time is
  read with the offset before the change).\<close>

definition fixedZone :: "int \<Rightarrow> zone" where
  "fixedZone tza = \<lparr>LocalTZA_utc = (\<lambda>t. tza), LocalTZA_local = (\<lambda>lt. tza)\<rparr>"

definition autumnZone :: zone where
  "autumnZone =
     \<lparr>LocalTZA_utc = (\<lambda>t. if t < 1729990800000 then 3600000 else 0),
      LocalTZA_local = (\<lambda>lt. if lt < 1729990800000 + 3600000 then 3600000 else 0)\<rparr>"

text \<open>A zone whose clocks go forward one hour, from one to two hours east of UTC,
  at 2024-03-31 01:00 UTC (a skipped local time is read with the offset before
  the change).\<close>

definition springZone :: zone where
  "springZone =
     \<lparr>LocalTZA_utc = (\<lambda>t. if t < 1711846800000 then 3600000 else 7200000),
      LocalTZA_local = (\<lambda>lt. if lt < 1711846800000 + 7200000 then 3600000 else 7200000)\<rparr>"

section \<open>The period of the result\<close>

lemma valid_TV: "t \<noteq> TNaN \<Longrightarrow> t = TV (timeOf t)"
  by (cases t) (simp_all add: timeOf_def)

lemma Max_insert_insert:
  "finite S \<Longrightarrow> Max (insert a (insert b S)) = Max (insert (max a b) (S::int set))"
  by (cases "S = {}") (simp_all add: max.assoc)

lemma Min_insert_insert:
  "finite S \<Longrightarrow> Min (insert a (insert b S)) = Min (insert (min a b) (S::int set))"
  by (cases "S = {}") (simp_all add: min.assoc)

text \<open>On valid dates the first loop computes the maximum of the period ends.\<close>

lemma maxDateLoop_valid:
  "\<forall>r\<in>set rs. excelDateToJS h (DATA_FINAL r) \<noteq> TNaN \<Longrightarrow>
   maxDateLoop h rs (Some (TV a)) = Some (TV (Max (insert a (endTime h ` set rs))))"
proof (induction rs arbitrary: a)
  case Nil
  then show ?case by simp
next
  case (Cons r rs)
  from Cons.prems have v: "excelDateToJS h (DATA_FINAL r) = TV (endTime h r)"
    unfolding endTime_def by (simp add: valid_TV)
  from Cons.prems have rest: "\<forall>r\<in>set rs. excelDateToJS h (DATA_FINAL r) \<noteq> TNaN"
    by simp
  have step: "Max (insert a (insert (endTime h r) (endTime h ` set rs)))
          = Max (insert (max a (endTime h r)) (endTime h ` set rs))"
    by (rule Max_insert_insert) simp
  have "maxDateLoop h (r # rs) (Some (TV a)) = maxDateLoop h rs (Some (TV (max a (endTime h r))))"
    using v by (simp add: max_def)
  also have "\<dots> = Some (TV (Max (insert (max a (endTime h r)) (endTime h ` set rs))))"
    by (rule Cons.IH[OF rest])
  also have "\<dots> = Some (TV (Max (insert a (endTime h ` set (r # rs)))))"
    using step by (simp del: Max_insert)
  finally show ?case .
qed

lemma maxDateLoop_None:
  assumes "rs \<noteq> []" and "\<forall>r\<in>set rs. excelDateToJS h (DATA_FINAL r) \<noteq> TNaN"
  shows "maxDateLoop h rs None = Some (TV (Max (endTime h ` set rs)))"
proof (cases rs)
  case Nil
  with assms show ?thesis by simp
next
  case (Cons r rs')
  from assms Cons have v: "excelDateToJS h (DATA_FINAL r) = TV (endTime h r)"
    unfolding endTime_def by (simp add: valid_TV)
  from assms Cons have rest: "\<forall>r\<in>set rs'. excelDateToJS h (DATA_FINAL r) \<noteq> TNaN"
    by simp
  show ?thesis using Cons v maxDateLoop_valid[OF rest, of "endTime h r"] by simp
qed

lemma minDateLoop_valid:
  "\<forall>r\<in>set rs. excelDateToJS h (DATA_INICIAL r) \<noteq> TNaN \<Longrightarrow>
   minDateLoop h rs (Some (TV a)) = Some (TV (Min (insert a (startTime h ` set rs))))"
proof (induction rs arbitrary: a)
  case Nil
  then show ?case by simp
next
  case (Cons r rs)
  from Cons.prems have v: "excelDateToJS h (DATA_INICIAL r) = TV (startTime h r)"
    unfolding startTime_def by (simp add: valid_TV)
  from Cons.prems have rest: "\<forall>r\<in>set rs. excelDateToJS h (DATA_INICIAL r) \<noteq> TNaN"
    by simp
  have step: "Min (insert a (insert (startTime h r) (startTime h ` set rs)))
          = Min (insert (min a (startTime h r)) (startTime h ` set rs))"
    by (rule Min_insert_insert) simp
  have "minDateLoop h (r # rs) (Some (TV a)) = minDateLoop h rs (Some (TV (min a (startTime h r))))"
    using v by (simp add: min_def)
  also have "\<dots> = Some (TV (Min (insert (min a (startTime h r)) (startTime h ` set rs))))"
    by (rule Cons.IH[OF rest])
  also have "\<dots> = Some (TV (Min (insert a (startTime h ` set (r # rs)))))"
    using step by (simp del: Min_insert)
  finally show ?case .
qed

lemma minDateLoop_None:
  assumes "rs \<noteq> []" and "\<forall>r\<in>set rs. excelDateToJS h (DATA_INICIAL r) \<noteq> TNaN"
  shows "minDateLoop h rs None = Some (TV (Min (startTime h ` set rs)))"
proof (cases rs)
  case Nil
  with assms show ?thesis by simp
next
  case (Cons r rs')
  from assms Cons have v: "excelDateToJS h (DATA_INICIAL r) = TV (startTime h r)"
    unfolding startTime_def by (simp add: valid_TV)
  from assms Cons have rest: "\<forall>r\<in>set rs'. excelDateToJS h (DATA_INICIAL r) \<noteq> TNaN"
    by simp
  show ?thesis using Cons v minDateLoop_valid[OF rest, of "startTime h r"] by simp
qed

lemma latestData_valid:
  assumes "\<forall>r\<in>set g. excelDateToJS h (DATA_FINAL r) \<noteq> TNaN"
  shows "latestData h (TV m) g = filter (\<lambda>r. endTime h r = m) g"
  unfolding latestData_def
proof (rule filter_cong[OF refl])
  fix r assume "r \<in> set g"
  with assms have "excelDateToJS h (DATA_FINAL r) = TV (endTime h r)"
    unfolding endTime_def by (simp add: valid_TV)
  then show "same_time (excelDateToJS h (DATA_FINAL r)) (TV m) = (endTime h r = m)"
    by simp
qed

lemma spec_latest_nonempty: "g \<noteq> [] \<Longrightarrow> spec_latest h g \<noteq> []"
proof -
  assume "g \<noteq> []"
  then have "Max (endTime h ` set g) \<in> endTime h ` set g"
    by (intro Max_in) simp_all
  then obtain r where "r \<in> set g" "endTime h r = Max (endTime h ` set g)" by auto
  then show ?thesis unfolding spec_latest_def by (auto simp: filter_empty_conv)
qed

lemma spec_latest_Max:
  assumes "g \<noteq> []"
  shows "Max (endTime h ` set (spec_latest h g)) = Max (endTime h ` set g)"
proof -
  define M where "M = Max (endTime h ` set g)"
  have L: "spec_latest h g = filter (\<lambda>r. endTime h r = M) g"
    unfolding spec_latest_def M_def ..
  from spec_latest_nonempty[OF assms] obtain r where r: "r \<in> set (spec_latest h g)"
    by (cases "spec_latest h g") auto
  have all: "\<And>x. x \<in> set (spec_latest h g) \<Longrightarrow> endTime h x = M"
    unfolding L by simp
  have "endTime h ` set (spec_latest h g) = {M}"
  proof (rule equalityI; rule subsetI)
    fix t assume "t \<in> endTime h ` set (spec_latest h g)"
    then obtain x where "x \<in> set (spec_latest h g)" and "t = endTime h x" by blast
    with all show "t \<in> {M}" by simp
  next
    fix t assume "t \<in> {M}"
    then have "t = endTime h r" using all[OF r] by simp
    with r show "t \<in> endTime h ` set (spec_latest h g)" by blast
  qed
  then have "Max (endTime h ` set (spec_latest h g)) = M"
    by (simp only: Max_singleton)
  then show ?thesis unfolding M_def .
qed

lemma spec_latest_idem:
  assumes "g \<noteq> []"
  shows "spec_latest h (spec_latest h g) = spec_latest h g"
proof -
  define M where "M = Max (endTime h ` set g)"
  have L: "spec_latest h g = filter (\<lambda>r. endTime h r = M) g"
    unfolding spec_latest_def M_def ..
  have "spec_latest h (spec_latest h g)
        = filter (\<lambda>r. endTime h r = Max (endTime h ` set (spec_latest h g))) (spec_latest h g)"
    by (subst spec_latest_def) (rule refl)
  also have "\<dots> = filter (\<lambda>r. endTime h r = M) (spec_latest h g)"
    unfolding spec_latest_Max[OF assms] M_def ..
  also have "\<dots> = spec_latest h g"
    unfolding L by simp
  finally show ?thesis .
qed

lemma formatDate_valid: "formatDate (Some (TV t)) = Inr (isoDate t)"
  by (simp add: formatDate_def isoDate_def)

lemma processRows_valid:
  assumes ne: "filter (isGuarulhos h) rows \<noteq> []"
    and vf: "\<forall>r\<in>set (filter (isGuarulhos h) rows). excelDateToJS h (DATA_FINAL r) \<noteq> TNaN"
    and vi: "\<forall>r\<in>set (filter (isGuarulhos h) rows). excelDateToJS h (DATA_INICIAL r) \<noteq> TNaN"
  shows "processRows h src now rows =
           Inr \<lparr>data = pricesLoop h (spec_latest h (filter (isGuarulhos h) rows)) noPrices,
                periodStart =
                  isoDate (Min (startTime h ` set (spec_latest h (filter (isGuarulhos h) rows)))),
                periodEnd = isoDate (Max (endTime h ` set (filter (isGuarulhos h) rows))),
                sourceUrl = src, updatedAt = toISOString now\<rparr>"
proof -
  let ?g = "filter (isGuarulhos h) rows"
  let ?M = "Max (endTime h ` set ?g)"
  have mx: "maxDateLoop h ?g None = Some (TV ?M)"
    by (rule maxDateLoop_None[OF ne vf])
  have lt: "latestData h (TV ?M) ?g = spec_latest h ?g"
    unfolding spec_latest_def by (rule latestData_valid[OF vf])
  have lne: "spec_latest h ?g \<noteq> []" by (rule spec_latest_nonempty[OF ne])
  have vi': "\<forall>r\<in>set (spec_latest h ?g). excelDateToJS h (DATA_INICIAL r) \<noteq> TNaN"
    using vi unfolding spec_latest_def by simp
  have mn: "minDateLoop h (spec_latest h ?g) None
            = Some (TV (Min (startTime h ` set (spec_latest h ?g))))"
    by (rule minDateLoop_None[OF lne vi'])
  show ?thesis
    unfolding processRows_def Let_def using ne
    by (simp only: mx lt mn formatDate_valid option.case sum.case length_0_conv if_False)
qed

text \<open>
  Claim C1, as amended. When at least one row is of the locality and the period
  cells of those rows convert to valid dates, the run succeeds: \<open>periodEnd\<close> is
  the day of the maximum period end among the rows of the locality,
  \<open>periodStart\<close> the day of the minimum period start among exactly the rows
  whose period end is that maximum, the prices are read from those rows only,
  and the rows of earlier periods contribute nothing: the run on the rows of the
  latest period alone has the same result.
\<close>

theorem C1_latest_period:
  assumes ne: "filter (isGuarulhos h) rows \<noteq> []"
    and vf: "\<forall>r\<in>set (filter (isGuarulhos h) rows). excelDateToJS h (DATA_FINAL r) \<noteq> TNaN"
    and vi: "\<forall>r\<in>set (filter (isGuarulhos h) rows). excelDateToJS h (DATA_INICIAL r) \<noteq> TNaN"
  shows "processRows h src now rows =
           Inr \<lparr>data = pricesLoop h (spec_latest h (filter (isGuarulhos h) rows)) noPrices,
                periodStart =
                  isoDate (Min (startTime h ` set (spec_latest h (filter (isGuarulhos h) rows)))),
                periodEnd = isoDate (Max (endTime h ` set (filter (isGuarulhos h) rows))),
                sourceUrl = src, updatedAt = toISOString now\<rparr>
         \<and> processRows h src now rows
             = processRows h src now (spec_latest h (filter (isGuarulhos h) rows))"
proof -
  let ?g = "filter (isGuarulhos h) rows"
  let ?L = "spec_latest h ?g"
  have sub: "set ?L \<subseteq> set ?g" unfolding spec_latest_def by auto
  have fL: "filter (isGuarulhos h) ?L = ?L"
    using sub by (intro filter_True) auto
  have neL: "filter (isGuarulhos h) ?L \<noteq> []"
    unfolding fL by (rule spec_latest_nonempty[OF ne])
  have vfL: "\<forall>r\<in>set (filter (isGuarulhos h) ?L). excelDateToJS h (DATA_FINAL r) \<noteq> TNaN"
    unfolding fL using vf sub by blast
  have viL: "\<forall>r\<in>set (filter (isGuarulhos h) ?L). excelDateToJS h (DATA_INICIAL r) \<noteq> TNaN"
    unfolding fL using vi sub by blast
  have whole: "processRows h src now rows =
           Inr \<lparr>data = pricesLoop h ?L noPrices,
                periodStart = isoDate (Min (startTime h ` set ?L)),
                periodEnd = isoDate (Max (endTime h ` set ?g)),
                sourceUrl = src, updatedAt = toISOString now\<rparr>"
    by (rule processRows_valid[OF ne vf vi])
  have part: "processRows h src now ?L =
           Inr \<lparr>data = pricesLoop h ?L noPrices,
                periodStart = isoDate (Min (startTime h ` set ?L)),
                periodEnd = isoDate (Max (endTime h ` set ?g)),
                sourceUrl = src, updatedAt = toISOString now\<rparr>"
    using processRows_valid[OF neL vfL viL, of src now]
    unfolding fL spec_latest_idem[OF ne] spec_latest_Max[OF ne] .
  show ?thesis unfolding whole part by (rule conjI) (rule refl)+
qed


text \<open>The example of the specification: periods ending 2024-05-01 and 2024-05-08
  for the locality, and a row of another locality.\<close>

theorem C1_latest_period_witness:
  "processRows sample_host None 0 c1_rows =
     Inr \<lparr>data = \<lparr>gasolinaComum = None, etanol = Some (Num (379 / 100)), diesel = None,
                   gnv = None\<rparr>,
          periodStart = ''2024-05-05'', periodEnd = ''2024-05-08'',
          sourceUrl = None, updatedAt = ''1970-01-01T00:00:00.000Z''\<rparr>
   \<and> processRows sample_host None 0 c1_rows =
       processRows sample_host None 0
         [mkRow ''Guarulhos'' ''ETANOL HIDRATADO'' (CNum (Num (379 / 100))) d0505 d0508]"
proof -
  have ne: "filter (isGuarulhos sample_host) c1_rows \<noteq> []"
    by code_simp
  have vf: "\<forall>r\<in>set (filter (isGuarulhos sample_host) c1_rows).
              excelDateToJS sample_host (DATA_FINAL r) \<noteq> TNaN"
    by code_simp
  have vi: "\<forall>r\<in>set (filter (isGuarulhos sample_host) c1_rows).
              excelDateToJS sample_host (DATA_INICIAL r) \<noteq> TNaN"
    by code_simp
  have l: "spec_latest sample_host (filter (isGuarulhos sample_host) c1_rows) =
             [mkRow ''Guarulhos'' ''ETANOL HIDRATADO'' (CNum (Num (379 / 100))) d0505 d0508]"
    by code_simp
  have r: "Inr \<lparr>data = pricesLoop sample_host
                  (spec_latest sample_host (filter (isGuarulhos sample_host) c1_rows)) noPrices,
                periodStart = isoDate (Min (startTime sample_host `
                  set (spec_latest sample_host (filter (isGuarulhos sample_host) c1_rows)))),
                periodEnd = isoDate (Max (endTime sample_host `
                  set (filter (isGuarulhos sample_host) c1_rows))),
                sourceUrl = None, updatedAt = toISOString 0\<rparr> =
          (Inr \<lparr>data = \<lparr>gasolinaComum = None, etanol = Some (Num (379 / 100)), diesel = None,
                   gnv = None\<rparr>,
          periodStart = ''2024-05-05'', periodEnd = ''2024-05-08'',
          sourceUrl = None, updatedAt = ''1970-01-01T00:00:00.000Z''\<rparr> :: error + payload)"
    by code_simp
  note th = C1_latest_period[OF ne vf vi, of None 0]
  have A: "processRows sample_host None 0 c1_rows =
     Inr \<lparr>data = \<lparr>gasolinaComum = None, etanol = Some (Num (379 / 100)), diesel = None,
                   gnv = None\<rparr>,
          periodStart = ''2024-05-05'', periodEnd = ''2024-05-08'',
          sourceUrl = None, updatedAt = ''1970-01-01T00:00:00.000Z''\<rparr>"
    using th[THEN conjunct1] unfolding r .
  have B: "processRows sample_host None 0 c1_rows =
       processRows sample_host None 0
         [mkRow ''Guarulhos'' ''ETANOL HIDRATADO'' (CNum (Num (379 / 100))) d0505 d0508]"
    using th[THEN conjunct2] unfolding l .
  show ?thesis using A B by (rule conjI)
qed

text \<open>
  Claim C1 as it is written fails when a period cell is no valid date. Both rows
  are of the locality; the serial 1000000000 of the first is beyond the range of
  \<^verbatim>\<open>Date\<close>, so \<^verbatim>\<open>maxDate\<close> is an invalid date that no later row replaces
  (\<^verbatim>\<open>dataFinal > maxDate\<close> is false against NaN), no row equals it, \<^verbatim>\<open>minDate\<close>
  stays \<^verbatim>\<open>null\<close> and \<^verbatim>\<open>formatDate(minDate)\<close> throws: there is no \<open>periodEnd\<close>.
\<close>

theorem C1_invalid_date_counterexample:
  "filter (isGuarulhos sample_host) c1_bad_rows = c1_bad_rows
   \<and> processRows sample_host None 0 c1_bad_rows = Inl TypeError"
  by code_simp

section \<open>The locality filter\<close>

lemma formatDate_error: "formatDate d = Inl e \<Longrightarrow> e = TypeError \<or> e = RangeError"
  by (auto simp: formatDate_def split: option.splits timeval.splits)

lemma processRows_empty:
  "filter (isGuarulhos h) rows = [] \<Longrightarrow>
   processRows h src now rows = Inl (Error ''Nenhum dado encontrado para Guarulhos'')"
  by (simp add: processRows_def)

lemma processRows_nonempty:
  assumes "filter (isGuarulhos h) rows \<noteq> []"
  shows "processRows h src now rows \<noteq> Inl (Error msg)"
proof
  assume a: "processRows h src now rows = Inl (Error msg)"
  let ?g = "filter (isGuarulhos h) rows"
  obtain m where m: "maxDateLoop h ?g None = Some m"
    using a assms by (cases "maxDateLoop h ?g None") (simp_all add: processRows_def)
  let ?mn = "minDateLoop h (latestData h m ?g) None"
  show False
  proof (cases "formatDate ?mn")
    case (Inl e)
    with a assms m have "e = Error msg" by (simp add: processRows_def Let_def)
    with formatDate_error[OF Inl] show False by auto
  next
    case (Inr ps)
    note ps = this
    show False
    proof (cases "formatDate (Some m)")
      case (Inl e)
      with a assms m ps have "e = Error msg" by (simp add: processRows_def Let_def)
      with formatDate_error[OF Inl] show False by auto
    next
      case (Inr pe)
      with a assms m ps show False by (simp add: processRows_def Let_def)
    qed
  qed
qed

text \<open>For a text cell the test is the comparison of the upper-cased text; the
  guard on truthiness only skips the empty text, which is not the name.\<close>

lemma isGuarulhos_text:
  "MUNICIPIO_acc r = CStr s \<Longrightarrow> s \<noteq> [] \<Longrightarrow>
   isGuarulhos h r = (toUpperCase s = ''GUARULHOS'')"
  by (simp add: isGuarulhos_def js_or_def)

lemma isGuarulhos_fallback:
  "\<not> truthy (MUNICIPIO_acc r) \<Longrightarrow> MUNICIPIO r = CStr s \<Longrightarrow>
   isGuarulhos h r = (toUpperCase s = ''GUARULHOS'')"
  by (cases "s = []") (simp_all add: isGuarulhos_def js_or_def toUpperCase_def)

text \<open>
  Claim C3. The run fails with the error \<^verbatim>\<open>Nenhum dado encontrado para Guarulhos\<close>
  (and so yields no payload) exactly when no row passes the test of the
  locality: the value of the locality column, upper-cased, is \<^verbatim>\<open>GUARULHOS\<close>.
  When a row passes it, whatever else happens is not that error.
\<close>

theorem C3_no_data:
  "(processRows h src now rows = Inl (Error ''Nenhum dado encontrado para Guarulhos''))
   = (\<not> (\<exists>r\<in>set rows. isGuarulhos h r))"
proof (cases "filter (isGuarulhos h) rows = []")
  case True
  then have "\<not> (\<exists>r\<in>set rows. isGuarulhos h r)" by (simp add: filter_empty_conv)
  with processRows_empty[OF True] show ?thesis by simp
next
  case False
  then have "\<exists>r\<in>set rows. isGuarulhos h r" by (simp add: filter_empty_conv)
  with processRows_nonempty[OF False] show ?thesis by simp
qed

theorem C3_no_data_witness:
  "processRows sample_host None 0 c3_rows = Inl (Error ''Nenhum dado encontrado para Guarulhos'')
   \<and> processRows sample_host None 0 c1_rows \<noteq> Inl (Error ''Nenhum dado encontrado para Guarulhos'')"
proof -
  have a: "\<not> (\<exists>r\<in>set c3_rows. isGuarulhos sample_host r)" by code_simp
  have b: "\<exists>r\<in>set c1_rows. isGuarulhos sample_host r" by code_simp
  from a b C3_no_data[of sample_host None 0 c3_rows] C3_no_data[of sample_host None 0 c1_rows]
  show ?thesis by blast
qed

section \<open>Determinism\<close>

text \<open>
  Claim C8. Two runs on the same rows differ in nothing but \<open>updatedAt\<close>: the
  clock \<open>now\<close> is the only thing a run reads beside the rows, and the prices,
  \<open>periodStart\<close> and \<open>periodEnd\<close> (or the error) do not depend on it.
\<close>

theorem C8_deterministic:
  "extracted (processRows h src now rows) = extracted (processRows h src now' rows)"
proof (cases "filter (isGuarulhos h) rows = []")
  case True
  then show ?thesis by (simp add: processRows_empty)
next
  case False
  let ?g = "filter (isGuarulhos h) rows"
  show ?thesis
  proof (cases "maxDateLoop h ?g None")
    case None
    with False show ?thesis by (simp add: processRows_def)
  next
    case (Some m)
    with False show ?thesis
      by (simp add: processRows_def Let_def extracted_def split: sum.splits)
  qed
qed

theorem C8_deterministic_witness:
  "extracted (processRows sample_host None 0 c1_rows)
   = extracted (processRows sample_host None 1715126400000 c1_rows)
   \<and> updatedAt (projr (processRows sample_host None 0 c1_rows))
     \<noteq> updatedAt (projr (processRows sample_host None 1715126400000 c1_rows))"
proof -
  have "updatedAt (projr (processRows sample_host None 0 c1_rows))
     \<noteq> updatedAt (projr (processRows sample_host None 1715126400000 c1_rows))"
    by code_simp
  with C8_deterministic[of sample_host None 0 c1_rows 1715126400000] show ?thesis by simp
qed

section \<open>The prices\<close>

text \<open>One step of the last loop writes the field of the first category, in the
  order of priority, that the product name matches, and no other.\<close>

lemma priceStep_category:
  "priceStep h row p =
     (case spec_category (produtoOf h row) of
        None \<Rightarrow> p
      | Some c \<Rightarrow> set_field c (priceValue h (PRECO_MEDIO_REVENDA row)) p)"
  by (simp add: priceStep_def spec_category_def Let_def)

lemma field_set_field: "field c (set_field c' v p) = (if c = c' then v else field c p)"
  by (cases c; cases c') simp_all

lemma field_priceStep:
  "field c (priceStep h row p) =
     (if spec_category (produtoOf h row) = Some c then priceValue h (PRECO_MEDIO_REVENDA row)
      else field c p)"
  by (auto simp: priceStep_category field_set_field split: option.splits)

text \<open>
  Claim C10. A row of the latest period writes at most one of the four fields:
  that of the first of GASOLINA COMUM, ETANOL, DIESEL (without S10), GNV that its
  upper-cased product name contains, with the price value of the row; every
  other field keeps its value.
\<close>

theorem C10_first_category_only:
  "priceStep h row p =
     (case spec_category (produtoOf h row) of
        None \<Rightarrow> p
      | Some c \<Rightarrow> set_field c (priceValue h (PRECO_MEDIO_REVENDA row)) p)
   \<and> (\<forall>c. spec_category (produtoOf h row) \<noteq> Some c \<longrightarrow>
          field c (priceStep h row p) = field c p)"
proof (intro conjI allI impI)
  show "priceStep h row p =
     (case spec_category (produtoOf h row) of
        None \<Rightarrow> p
      | Some c \<Rightarrow> set_field c (priceValue h (PRECO_MEDIO_REVENDA row)) p)"
    by (rule priceStep_category)
next
  fix c assume "spec_category (produtoOf h row) \<noteq> Some c"
  then show "field c (priceStep h row p) = field c p"
    by (simp add: field_priceStep)
qed

theorem C10_first_category_only_witness:
  "spec_matches (produtoOf sample_host c10_row) GasolinaComum
   \<and> spec_matches (produtoOf sample_host c10_row) Etanol
   \<and> priceStep sample_host c10_row noPrices = noPrices\<lparr>gasolinaComum := Some (Num 5)\<rparr>
   \<and> field Etanol (priceStep sample_host c10_row noPrices) = field Etanol noPrices"
proof -
  have m: "spec_matches (produtoOf sample_host c10_row) GasolinaComum"
          "spec_matches (produtoOf sample_host c10_row) Etanol"
    by code_simp+
  have c: "spec_category (produtoOf sample_host c10_row) = Some GasolinaComum" by code_simp
  have v: "priceValue sample_host (PRECO_MEDIO_REVENDA c10_row) = Some (Num 5)" by code_simp
  from C10_first_category_only[of sample_host c10_row noPrices] m show ?thesis
    unfolding c v by simp
qed

text \<open>
  Claim C2, as amended. A row writes the diesel field exactly when its upper-cased
  product name contains DIESEL, does not contain S10, and contains neither
  GASOLINA COMUM nor ETANOL (which are tested first); otherwise the field keeps
  its value. A row named DIESEL S10 never writes it, a row named DIESEL does.
\<close>

theorem C2_diesel_without_S10:
  "diesel (priceStep h row p) =
     (if includes_str (produtoOf h row) ''DIESEL'' \<and> \<not> includes_str (produtoOf h row) ''S10''
         \<and> \<not> includes_str (produtoOf h row) ''GASOLINA COMUM''
         \<and> \<not> includes_str (produtoOf h row) ''ETANOL''
      then priceValue h (PRECO_MEDIO_REVENDA row) else diesel p)
   \<and> (produtoOf h row = ''DIESEL S10'' \<longrightarrow> diesel (priceStep h row p) = diesel p)
   \<and> (produtoOf h row = ''DIESEL'' \<longrightarrow>
        diesel (priceStep h row p) = priceValue h (PRECO_MEDIO_REVENDA row))"
proof -
  have a: "includes_str ''DIESEL S10'' ''S10''" by code_simp
  have b: "includes_str ''DIESEL'' ''DIESEL''" "\<not> includes_str ''DIESEL'' ''S10''"
    "\<not> includes_str ''DIESEL'' ''GASOLINA COMUM''" "\<not> includes_str ''DIESEL'' ''ETANOL''"
    "\<not> includes_str ''DIESEL S10'' ''GASOLINA COMUM''" "\<not> includes_str ''DIESEL S10'' ''ETANOL''"
    "\<not> includes_str ''DIESEL S10'' ''GNV''"
    by code_simp+
  show ?thesis
    using a b by (auto simp: priceStep_def Let_def)
qed

theorem C2_diesel_without_S10_witness:
  "diesel (priceStep sample_host
      (mkRow ''GUARULHOS'' ''Oleo Diesel'' (CNum (Num 6)) d0505 d0508) noPrices) = Some (Num 6)
   \<and> diesel (priceStep sample_host
      (mkRow ''GUARULHOS'' ''Diesel S10'' (CNum (Num 6)) d0505 d0508) noPrices) = None"
proof -
  let ?r = "mkRow ''GUARULHOS'' ''Oleo Diesel'' (CNum (Num 6)) d0505 d0508"
  let ?s = "mkRow ''GUARULHOS'' ''Diesel S10'' (CNum (Num 6)) d0505 d0508"
  have r: "includes_str (produtoOf sample_host ?r) ''DIESEL''"
    "\<not> includes_str (produtoOf sample_host ?r) ''S10''"
    "\<not> includes_str (produtoOf sample_host ?r) ''GASOLINA COMUM''"
    "\<not> includes_str (produtoOf sample_host ?r) ''ETANOL''"
    "priceValue sample_host (PRECO_MEDIO_REVENDA ?r) = Some (Num 6)"
    by code_simp+
  have s: "produtoOf sample_host ?s = ''DIESEL S10''" "diesel noPrices = None"
    by code_simp+
  from C2_diesel_without_S10[of sample_host ?r noPrices]
       C2_diesel_without_S10[of sample_host ?s noPrices] r s
  show ?thesis by simp
qed

text \<open>
  Claim C2 as it is written fails on a name that also matches an earlier
  category: this row is named \<^verbatim>\<open>ETANOL E DIESEL\<close> once upper-cased, which contains
  DIESEL and not S10, and its price goes to the ethanol field; the diesel field
  stays \<^verbatim>\<open>null\<close>.
\<close>

theorem C2_priority_counterexample:
  "includes_str (produtoOf sample_host c2_row) ''DIESEL''
   \<and> \<not> includes_str (produtoOf sample_host c2_row) ''S10''
   \<and> processRows sample_host None 0 [c2_row] =
       Inr \<lparr>data = \<lparr>gasolinaComum = None, etanol = Some (Num 4), diesel = None, gnv = None\<rparr>,
            periodStart = ''2024-05-05'', periodEnd = ''2024-05-08'',
            sourceUrl = None, updatedAt = ''1970-01-01T00:00:00.000Z''\<rparr>"
  by code_simp




text \<open>The price value of a cell: \<^verbatim>\<open>null\<close> for a missing cell and for one whose
  conversion to a number is NaN, the number itself for a number.\<close>

lemma priceValue_null: "priceValue h CNull = None" "priceValue h CUndef = None"
  by (simp_all add: priceValue_def isNaN_def)

lemma priceValue_number:
  "priceValue h (CNum n) = (if n = NaN then None else Some n)"
  by (cases n) (simp_all add: priceValue_def isNaN_def)

lemma priceValue_text:
  "priceValue h (CStr s) = (if StringToNumber s = NaN then None else Some (parseFloat_str s))"
  by (cases "StringToNumber s") (simp_all add: priceValue_def isNaN_def)

text \<open>
  Claim C5 at a price cell that holds the empty text: \<^verbatim>\<open>isNaN('')\<close> is false,
  since the empty text converts to 0, and \<^verbatim>\<open>parseFloat('')\<close> is NaN, so the field of
  the category is NaN, not \<^verbatim>\<open>null\<close>.
\<close>

theorem C5_empty_text_gives_NaN:
  "processRows sample_host None 0 c5_rows =
     Inr \<lparr>data = \<lparr>gasolinaComum = Some NaN, etanol = None, diesel = None, gnv = None\<rparr>,
          periodStart = ''2024-05-05'', periodEnd = ''2024-05-08'',
          sourceUrl = None, updatedAt = ''1970-01-01T00:00:00.000Z''\<rparr>"
  by code_simp

section \<open>Date serials\<close>

text \<open>On a whole-number serial the subtraction, \<^verbatim>\<open>Math.floor\<close> and the two
  products are exact, in the model as in the code: the serial is a day count,
  and the date is invalid beyond 100000000 days from the epoch (a serial of
  that size or more stays out of range however the double arithmetic rounds
  it).\<close>

lemma trunc_of_int:
  "(if (0::rat) \<le> of_int x then \<lfloor>(of_int x :: rat)\<rfloor> else \<lceil>(of_int x :: rat)\<rceil>) = x"
  by simp

lemma days_in_range:
  "(\<bar>d * 86400000\<bar> \<le> (8640000000000000::int)) = (\<bar>d\<bar> \<le> 100000000)"
  by linarith

lemma excelDateToJS_whole:
  "excelDateToJS h (CNum (Num (of_int n))) =
     (if \<bar>n - 25569\<bar> \<le> 100000000 then TV ((n - 25569) * 86400000) else TNaN)"
proof -
  let ?d = "n - 25569"
  have f: "\<lfloor>(of_int n :: rat) - 25569\<rfloor> = ?d" by simp
  have m: "(of_int ?d :: rat) * 86400 * 1000 = of_int (?d * 86400000)" by simp
  have r: "(\<bar>(of_int (?d * 86400000) :: rat)\<bar> \<le> 8640000000000000) = (\<bar>?d\<bar> \<le> 100000000)"
  proof -
    have "\<bar>(of_int (?d * 86400000) :: rat)\<bar> = of_int \<bar>?d * 86400000\<bar>"
      by (rule of_int_abs[symmetric])
    moreover have "((of_int \<bar>?d * 86400000\<bar> :: rat) \<le> 8640000000000000)
          = (\<bar>?d * 86400000\<bar> \<le> (8640000000000000::int))"
      by (rule of_int_le_numeral_iff)
    moreover have "(\<bar>?d * 86400000\<bar> \<le> (8640000000000000::int)) = (\<bar>?d\<bar> \<le> 100000000)"
      by (rule days_in_range)
    ultimately show ?thesis by (simp only:)
  qed
  have t: "(if (0::rat) \<le> of_int (?d * 86400000) then \<lfloor>(of_int (?d * 86400000) :: rat)\<rfloor>
           else \<lceil>(of_int (?d * 86400000) :: rat)\<rceil>) = ?d * 86400000"
    by (rule trunc_of_int)
  have "excelDateToJS h (CNum (Num (of_int n)))
        = Date_of_number (Num (of_int \<lfloor>(of_int n :: rat) - 25569\<rfloor> * 86400 * 1000))"
    unfolding excelDateToJS_def by (simp only: cell.case Let_def ToNumber.simps js_sub.simps
        Math_floor.simps js_mul.simps)
  also have "\<dots> = Date_of_number (Num (of_int (?d * 86400000)))"
    unfolding f m ..
  also have "\<dots> = (if \<bar>?d\<bar> \<le> 100000000 then TV (?d * 86400000) else TNaN)"
    by (simp only: Date_of_number.simps r t)
  finally show ?thesis .
qed

text \<open>
  Claim C6. A numeric date serial, the whole number of days that the glossary of
  the specification defines, is shifted by 25569 days and scaled to
  milliseconds: the time value is \<open>(serial - 25569)\<close> times 86400000 (over the
  range of \<^verbatim>\<open>Date\<close>, 100000000 days either side of the epoch, beyond which the
  date is invalid). A \<^verbatim>\<open>Date\<close> is returned as it is and a text is parsed by the
  engine.
\<close>

theorem C6_serial_to_time:
  "excelDateToJS h (CNum (Num (of_int n))) =
     (if \<bar>n - 25569\<bar> \<le> 100000000 then TV ((n - 25569) * 86400000) else TNaN)
   \<and> excelDateToJS h (CDate d) = d
   \<and> excelDateToJS h (CStr s) = Date_parse h s"
  using excelDateToJS_whole[of h n] by (simp add: excelDateToJS_def)

theorem C6_serial_to_time_witness:
  "excelDateToJS sample_host (CNum (Num 45420)) = TV 1715126400000
   \<and> (45420 - 25569) * 86400000 = (1715126400000 :: int)
   \<and> excelDateToJS sample_host d0508 = TV 1715126400000"
  using C6_serial_to_time[of sample_host 45420 "TV 1715126400000" "[]"]
  by (simp add: d0508_def)

section \<open>The caching header\<close>

text \<open>\<^verbatim>\<open>setHours\<close> gives 07:00 of the local day of \<open>now\<close>. When that is not ahead
  of \<open>now\<close>, and the local clock does show 07:00 at that instant (07:00 is not
  inside an hour that a change of the clocks skips), \<^verbatim>\<open>setDate\<close> gives 07:00 of
  the next local day: the target is the next 07:00 of the local clock.\<close>

lemma setHours7_spec: "setHours7 z now = spec_0700 z (localDay z now)"
  by (simp add: setHours7_def spec_0700_def localDay_def)

lemma target7AM_spec:
  assumes "LocalTime z (spec_0700 z (localDay z now)) = localDay z now * 86400000 + 25200000"
  shows "target7AM z now = spec_next_0700 z now"
proof (cases "now < spec_0700 z (localDay z now)")
  case True
  then show ?thesis
    by (simp add: target7AM_def Let_def setHours7_spec spec_next_0700_def)
next
  case False
  have "setDateNext z (spec_0700 z (localDay z now))
        = UTC z (localDay z now * 86400000 + 25200000 + 86400000)"
    unfolding setDateNext_def assms ..
  also have "\<dots> = spec_0700 z (localDay z now + 1)"
    by (simp add: spec_0700_def algebra_simps)
  finally show ?thesis
    using False by (simp add: target7AM_def Let_def setHours7_spec spec_next_0700_def)
qed

text \<open>In a zone at a fixed offset the local clock shows 07:00 at the target, the
  target is after \<open>now\<close>, and not more than a day after.\<close>

lemma fixedZone_0700:
  "LocalTime (fixedZone tza) (spec_0700 (fixedZone tza) d) = d * 86400000 + 25200000"
  by (simp add: LocalTime_def spec_0700_def UTC_def fixedZone_def)

lemma target7AM_fixedZone:
  "now < target7AM (fixedZone tza) now \<and> target7AM (fixedZone tza) now \<le> now + 86400000
   \<and> (target7AM (fixedZone tza) now + tza) mod 86400000 = 25200000"
proof -
  define L where "L = now + tza"
  define q where "q = L div 86400000"
  have lo: "q * 86400000 \<le> L" unfolding q_def by simp
  have hi: "L < q * 86400000 + 86400000"
    unfolding q_def using pos_mod_bound[of 86400000 L]
    by (simp add: algebra_simps div_mult_mod_eq minus_mod_eq_mult_div[symmetric])
  have s: "setHours7 (fixedZone tza) now = q * 86400000 + 25200000 - tza"
    unfolding setHours7_def q_def L_def by (simp add: LocalTime_def UTC_def fixedZone_def)
  have n: "\<And>t. setDateNext (fixedZone tza) t = t + 86400000"
    by (simp add: setDateNext_def LocalTime_def UTC_def fixedZone_def)
  have m1: "(q * 86400000 + 25200000) mod 86400000 = (25200000::int)" by simp
  have m2: "(q * 86400000 + 86400000 + 25200000) mod 86400000 = (25200000::int)"
  proof -
    have "q * 86400000 + 86400000 + 25200000 = (q + 1) * 86400000 + (25200000::int)"
      by (simp add: algebra_simps)
    then show ?thesis by (simp only: mod_mult_self3) simp
  qed
  show ?thesis
  proof (cases "now \<ge> setHours7 (fixedZone tza) now")
    case True
    then have t: "target7AM (fixedZone tza) now = q * 86400000 + 25200000 - tza + 86400000"
      by (simp add: target7AM_def s n Let_def)
    have "(target7AM (fixedZone tza) now + tza) = q * 86400000 + 86400000 + 25200000"
      unfolding t by simp
    then have "(target7AM (fixedZone tza) now + tza) mod 86400000 = 25200000"
      using m2 by simp
    moreover have "now < target7AM (fixedZone tza) now" unfolding t using hi L_def by linarith
    moreover have "target7AM (fixedZone tza) now \<le> now + 86400000"
      using True unfolding t s by linarith
    ultimately show ?thesis by simp
  next
    case False
    then have t: "target7AM (fixedZone tza) now = q * 86400000 + 25200000 - tza"
      by (simp add: target7AM_def s Let_def)
    have "(target7AM (fixedZone tza) now + tza) = q * 86400000 + 25200000"
      unfolding t by simp
    then have "(target7AM (fixedZone tza) now + tza) mod 86400000 = 25200000"
      using m1 by simp
    moreover have "now < target7AM (fixedZone tza) now" using False unfolding t s by linarith
    moreover have "target7AM (fixedZone tza) now \<le> now + 86400000"
      unfolding t using lo L_def by linarith
    ultimately show ?thesis by simp
  qed
qed

lemma cors_no_cache: "cors ''Cache-Control'' = None"
  by (simp add: cors_def)

lemma handler_until7_cache:
  "req_method req \<noteq> ''OPTIONS'' \<Longrightarrow>
   headers (handler_until7 z now req result) ''Cache-Control'' =
     Some (if req_refresh req = QStr ''true'' \<or> isl result then noStore
           else ''s-maxage='' @ show_int (max 60 ((target7AM z now - now) div 1000)) @
                '', stale-while-revalidate=300'')"
  by (cases result) (simp_all add: handler_until7_def getSecondsUntil7AM_def Let_def)

lemma handler_until7_capped_cache:
  "req_method req \<noteq> ''OPTIONS'' \<Longrightarrow>
   headers (handler_until7_capped z now req result) ''Cache-Control'' =
     Some (if req_refresh req = QStr ''true'' \<or> isl result then noStore
           else ''s-maxage='' @
                show_int (max 60 (min ((target7AM z now - now) div 1000) 86400)) @
                '', stale-while-revalidate=60'')"
  by (cases result) (simp_all add: handler_until7_capped_def getSecondsUntil7AM_capped_def Let_def)

lemma handler_hourly_cache:
  "headers (handler_hourly req result) ''Cache-Control''
   = Some ''s-maxage=3600, stale-while-revalidate''"
  by (cases result) (simp_all add: handler_hourly_def Let_def)

lemma handler_mnt_cache: "headers (handler_mnt req result) ''Cache-Control'' = None"
  by (cases result) (simp_all add: handler_mnt_def cors_no_cache)

text \<open>
  Claim C9, as amended. For a request other than \<^verbatim>\<open>OPTIONS\<close>, the handlers of
  src/api/fuel-prices.js and src/api/api_fuel-prices.js set \<^verbatim>\<open>Cache-Control\<close> to the
  no-store directive exactly when the refresh was forced or the run failed, and
  otherwise to \<^verbatim>\<open>s-maxage=N, stale-while-revalidate=...\<close>, where \<open>N\<close> is the whole
  seconds from now to the target, not less than 60 (and, in the second handler
  of src/api/api_fuel-prices.js, not more than 86400); the target is the next
  07:00 of the local clock (that of the local day when still ahead, else that of
  the next local day), provided the local clock does show 07:00 on the local
  day. An \<^verbatim>\<open>OPTIONS\<close> request gets no \<^verbatim>\<open>Cache-Control\<close> from these handlers. The
  handler of src/api_fuel-prices.js sends the fixed
  \<^verbatim>\<open>s-maxage=3600, stale-while-revalidate\<close> on every response, and that of
  src/mnt_fuel-prices.js sends no \<^verbatim>\<open>Cache-Control\<close> on any.
\<close>

theorem C9_cache_control:
  "(req_method req \<noteq> ''OPTIONS'' \<longrightarrow>
      headers (handler_until7 z now req result) ''Cache-Control'' =
        Some (if req_refresh req = QStr ''true'' \<or> isl result then noStore
              else ''s-maxage='' @ show_int (max 60 ((target7AM z now - now) div 1000)) @
                   '', stale-while-revalidate=300'')
      \<and> headers (handler_until7_capped z now req result) ''Cache-Control'' =
        Some (if req_refresh req = QStr ''true'' \<or> isl result then noStore
              else ''s-maxage='' @
                   show_int (max 60 (min ((target7AM z now - now) div 1000) 86400)) @
                   '', stale-while-revalidate=60''))
   \<and> (req_method req = ''OPTIONS'' \<longrightarrow>
      headers (handler_until7 z now req result) ''Cache-Control'' = None
      \<and> headers (handler_until7_capped z now req result) ''Cache-Control'' = None)
   \<and> headers (handler_hourly req result) ''Cache-Control''
       = Some ''s-maxage=3600, stale-while-revalidate''
   \<and> headers (handler_mnt req result) ''Cache-Control'' = None
   \<and> (LocalTime z (spec_0700 z (localDay z now)) = localDay z now * 86400000 + 25200000 \<longrightarrow>
        target7AM z now = spec_next_0700 z now)"
proof (intro conjI impI)
  assume "req_method req \<noteq> ''OPTIONS''"
  then show "headers (handler_until7 z now req result) ''Cache-Control'' =
        Some (if req_refresh req = QStr ''true'' \<or> isl result then noStore
              else ''s-maxage='' @ show_int (max 60 ((target7AM z now - now) div 1000)) @
                   '', stale-while-revalidate=300'')"
    by (rule handler_until7_cache)
next
  assume "req_method req \<noteq> ''OPTIONS''"
  then show "headers (handler_until7_capped z now req result) ''Cache-Control'' =
        Some (if req_refresh req = QStr ''true'' \<or> isl result then noStore
              else ''s-maxage='' @
                   show_int (max 60 (min ((target7AM z now - now) div 1000) 86400)) @
                   '', stale-while-revalidate=60'')"
    by (rule handler_until7_capped_cache)
next
  assume "req_method req = ''OPTIONS''"
  then show "headers (handler_until7 z now req result) ''Cache-Control'' = None"
    by (simp add: handler_until7_def cors_no_cache)
next
  assume "req_method req = ''OPTIONS''"
  then show "headers (handler_until7_capped z now req result) ''Cache-Control'' = None"
    by (simp add: handler_until7_capped_def cors_no_cache)
next
  show "headers (handler_hourly req result) ''Cache-Control''
       = Some ''s-maxage=3600, stale-while-revalidate''"
    by (rule handler_hourly_cache)
next
  show "headers (handler_mnt req result) ''Cache-Control'' = None"
    by (rule handler_mnt_cache)
next
  assume "LocalTime z (spec_0700 z (localDay z now)) = localDay z now * 86400000 + 25200000"
  then show "target7AM z now = spec_next_0700 z now"
    by (rule target7AM_spec)
qed

text \<open>
  At 2024-05-08 09:00:30 UTC in a zone three hours behind UTC the local clock
  shows 06:00:30. At 2024-10-26 06:00 UTC in the zone whose clocks go back the
  next night the local clock shows 07:00, and the next 07:00 is 25 hours away:
  90000 seconds, which the second handler of src/api/api_fuel-prices.js cuts down
  to 86400.
\<close>

theorem C9_cache_control_witness:
  "headers (handler_until7 (fixedZone (- 10800000)) 1715158830000 getReq
        (processRows sample_host None 0 c1_rows))
      ''Cache-Control'' = Some ''s-maxage=3570, stale-while-revalidate=300''
   \<and> headers (handler_until7 autumnZone 1729922400000 getReq
        (processRows sample_host None 0 c1_rows))
      ''Cache-Control'' = Some ''s-maxage=90000, stale-while-revalidate=300''
   \<and> headers (handler_until7_capped autumnZone 1729922400000 getReq
        (processRows sample_host None 0 c1_rows))
      ''Cache-Control'' = Some ''s-maxage=86400, stale-while-revalidate=60''
   \<and> target7AM autumnZone 1729922400000 = spec_next_0700 autumnZone 1729922400000
   \<and> spec_next_0700 autumnZone 1729922400000 = 1730012400000
   \<and> headers (handler_until7_capped autumnZone 1729922400000 getReq
        (processRows sample_host None 0 c3_rows)) ''Cache-Control''
      = Some ''no-cache, no-store, must-revalidate''
   \<and> headers (handler_until7 autumnZone 1729922400000 optionsReq
        (processRows sample_host None 0 c1_rows)) ''Cache-Control'' = None"
proof -
  have g: "req_method getReq \<noteq> ''OPTIONS''" "req_refresh getReq \<noteq> QStr ''true''"
    by code_simp+
  have o: "req_method optionsReq = ''OPTIONS''" by code_simp
  have s: "\<not> isl (processRows sample_host None 0 c1_rows)"
          "isl (processRows sample_host None 0 c3_rows)"
    by code_simp+
  have n1: "''s-maxage='' @ show_int (max 60 ((target7AM (fixedZone (- 10800000)) 1715158830000
                - 1715158830000) div 1000)) @ '', stale-while-revalidate=300''
            = ''s-maxage=3570, stale-while-revalidate=300''"
    by code_simp
  have n2: "''s-maxage='' @ show_int (max 60 ((target7AM autumnZone 1729922400000
                - 1729922400000) div 1000)) @ '', stale-while-revalidate=300''
            = ''s-maxage=90000, stale-while-revalidate=300''"
    by code_simp
  have n3: "''s-maxage='' @ show_int (max 60 (min ((target7AM autumnZone 1729922400000
                - 1729922400000) div 1000) 86400)) @ '', stale-while-revalidate=60''
            = ''s-maxage=86400, stale-while-revalidate=60''"
    by code_simp
  have rt: "LocalTime autumnZone (spec_0700 autumnZone (localDay autumnZone 1729922400000))
            = localDay autumnZone 1729922400000 * 86400000 + 25200000"
    by code_simp
  have v: "spec_next_0700 autumnZone 1729922400000 = 1730012400000" by code_simp
  note f = C9_cache_control[of getReq "fixedZone (- 10800000)" 1715158830000
      "processRows sample_host None 0 c1_rows"]
  note a1 = C9_cache_control[of getReq autumnZone 1729922400000
      "processRows sample_host None 0 c1_rows"]
  note a3 = C9_cache_control[of getReq autumnZone 1729922400000
      "processRows sample_host None 0 c3_rows"]
  note op = C9_cache_control[of optionsReq autumnZone 1729922400000
      "processRows sample_host None 0 c1_rows"]
  have c1: "headers (handler_until7 (fixedZone (- 10800000)) 1715158830000 getReq
        (processRows sample_host None 0 c1_rows))
      ''Cache-Control'' = Some ''s-maxage=3570, stale-while-revalidate=300''"
    using f g s unfolding n1 by simp
  have c2: "headers (handler_until7 autumnZone 1729922400000 getReq
        (processRows sample_host None 0 c1_rows))
      ''Cache-Control'' = Some ''s-maxage=90000, stale-while-revalidate=300''"
    using a1 g s unfolding n2 by simp
  have c3: "headers (handler_until7_capped autumnZone 1729922400000 getReq
        (processRows sample_host None 0 c1_rows))
      ''Cache-Control'' = Some ''s-maxage=86400, stale-while-revalidate=60''"
    using a1 g s unfolding n3 by simp
  have c4: "target7AM autumnZone 1729922400000 = spec_next_0700 autumnZone 1729922400000"
    using a1 rt by blast
  have c5: "headers (handler_until7_capped autumnZone 1729922400000 getReq
        (processRows sample_host None 0 c3_rows)) ''Cache-Control''
      = Some ''no-cache, no-store, must-revalidate''"
    using a3 g s by (simp add: noStore_def)
  have c6: "headers (handler_until7 autumnZone 1729922400000 optionsReq
        (processRows sample_host None 0 c1_rows)) ''Cache-Control'' = None"
    using op o by simp
  show ?thesis using c1 c2 c3 c4 v c5 c6 by (intro conjI)
qed

text \<open>On the days the clocks change the next 07:00 is 25 or 23 hours after a
  local 07:00.\<close>

lemma getSecondsUntil7AM_clock_change:
  "getSecondsUntil7AM autumnZone 1729922400000 = 90000"
  "getSecondsUntil7AM_capped autumnZone 1729922400000 = 86400"
  "getSecondsUntil7AM springZone 1711778400000 = 82800"
  "getSecondsUntil7AM_capped springZone 1711778400000 = 82800"
  by code_simp+

text \<open>
  Claim C9 as it is written fails on the handler of src/api_fuel-prices.js, which
  sets one fixed directive before anything else: a failed run is answered with
  \<^verbatim>\<open>s-maxage=3600, stale-while-revalidate\<close>, which is neither the no-store
  directive nor the seconds until 07:00. The handler of src/mnt_fuel-prices.js
  sets no \<^verbatim>\<open>Cache-Control\<close> at all.
\<close>

theorem C9_fixed_header_counterexample:
  "headers (handler_hourly getReq (Inl FetchRejected)) ''Cache-Control''
     = Some ''s-maxage=3600, stale-while-revalidate''
   \<and> status (handler_hourly getReq (Inl FetchRejected)) = 500
   \<and> headers (handler_mnt getReq (Inl FetchRejected)) ''Cache-Control'' = None"
  by (simp add: handler_hourly_def handler_mnt_def getReq_def cors_def)

section \<open>The matches of the expressions\<close>

text \<open>A match notes one text per border of the expression, so every match of
  either expression yields a candidate: \<^verbatim>\<open>matches\<close> holds all of them.\<close>

lemma matchHere_borders:
  "matchHere p s bs = Some (bs', rest) \<Longrightarrow> length bs' = length bs + borders p"
proof (induction p s bs arbitrary: bs' rest rule: matchHere.induct)
  case (1 s bs)
  then show ?case by (simp add: borders_def)
next
  case (2 its s bs)
  then have "length bs' = length (bs @ [s]) + borders its" by simp
  then show ?case by (simp add: borders_def)
next
  case (3 c its bs)
  then show ?case by simp
next
  case (4 c its x s bs)
  then show ?case by (simp add: borders_def split: if_splits)
next
  case (5 its bs)
  then show ?case by simp
next
  case (6 its x s bs)
  then show ?case by (simp add: borders_def split: if_splits)
next
  case (7 c its bs)
  then show ?case by (simp add: borders_def)
next
  case (8 c its x s bs)
  show ?case
  proof (cases "x \<noteq> c")
    case True
    note neq = this
    show ?thesis
    proof (cases "matchHere (StarNot c # its) s bs")
      case None
      with "8.prems" neq have "matchHere its (x # s) bs = Some (bs', rest)" by simp
      with "8.IH"(2)[OF neq None] show ?thesis by (simp add: borders_def)
    next
      case (Some r)
      with "8.prems" neq have "matchHere (StarNot c # its) s bs = Some (bs', rest)" by simp
      with "8.IH"(1)[OF neq] show ?thesis by simp
    qed
  next
    case False
    with "8.prems" have "matchHere its (x # s) bs = Some (bs', rest)" by simp
    with "8.IH"(3)[OF False] show ?thesis by (simp add: borders_def)
  qed
qed

lemma firstMatch_borders:
  "firstMatch p s = Some (bs, rest) \<Longrightarrow> length bs = borders p"
proof (induction s)
  case Nil
  then show ?case using matchHere_borders[of p "[]" "[]" bs rest] by simp
next
  case (Cons x s)
  show ?case
  proof (cases "matchHere p (x # s) []")
    case None
    with Cons show ?thesis by simp
  next
    case (Some r)
    with Cons.prems have "matchHere p (x # s) [] = Some (bs, rest)" by simp
    from matchHere_borders[OF this] show ?thesis by simp
  qed
qed

lemma execAll_borders:
  "bs \<in> set (execAll c its s) \<Longrightarrow> length bs = borders (Lit c # its)"
proof (induction c its s rule: execAll.induct)
  case (1 c its s)
  show ?case
  proof (cases "firstMatch (Lit c # its) s")
    case None
    with "1.prems" show ?thesis by (simp add: execAll.simps[of c its s])
  next
    case (Some r)
    obtain b rest where r: "r = (b, rest)" by (cases r)
    from "1.prems" Some r have "bs = b \<or> bs \<in> set (execAll c its rest)"
      by (simp add: execAll.simps[of c its s])
    then show ?thesis
    proof
      assume "bs = b"
      with firstMatch_borders[of "Lit c # its" s b rest] Some r show ?thesis by simp
    next
      assume "bs \<in> set (execAll c its rest)"
      with "1.IH"[OF Some r[symmetric]] show ?thesis by simp
    qed
  qed
qed

lemma hrefMatch_total: "length bs = 6 \<Longrightarrow> hrefMatch bs \<noteq> None"
  by (auto simp: hrefMatch_def length_Suc_conv eval_nat_numeral split: list.splits)

lemma altMatch_total: "length bs = 4 \<Longrightarrow> altMatch bs \<noteq> None"
  by (auto simp: altMatch_def length_Suc_conv eval_nat_numeral split: list.splits)

lemma map_filter_total:
  "(\<And>x. x \<in> set xs \<Longrightarrow> f x \<noteq> None) \<Longrightarrow> length (List.map_filter f xs) = length xs"
  by (induction xs) (auto simp: List.map_filter_def)

lemma hrefMatches_all:
  "length (hrefMatches html)
   = length (execAll (fst municipioPattern) (snd municipioPattern) html)"
proof -
  have b: "borders (Lit (fst municipioPattern) # snd municipioPattern) = 6"
    by (simp add: municipioPattern_def borders_def lits_def)
  show ?thesis
    unfolding hrefMatches_def
    by (rule map_filter_total) (simp add: hrefMatch_total execAll_borders b)
qed

lemma altMatches_all:
  "length (altMatches html) = length (execAll (fst altPattern) (snd altPattern) html)"
proof -
  have b: "borders (Lit (fst altPattern) # snd altPattern) = 4"
    by (simp add: altPattern_def borders_def lits_def)
  show ?thesis
    unfolding altMatches_def
    by (rule map_filter_total) (simp add: altMatch_total execAll_borders b)
qed

section \<open>The latest file\<close>

text \<open>The comparison function of the sort puts \<open>a\<close> before \<open>b\<close> or leaves them
  tied exactly when \<open>a\<close> is at least as recent as \<open>b\<close>.\<close>

lemma compareFn_le: "(compareFn a b \<le> 0) = spec_as_recent a b"
  by (auto simp: compareFn_def spec_as_recent_def)

lemma spec_as_recent_refl: "spec_as_recent a a"
  by (simp add: spec_as_recent_def)

lemma spec_as_recent_trans:
  "spec_as_recent a b \<Longrightarrow> spec_as_recent b c \<Longrightarrow> spec_as_recent a c"
  by (auto simp: spec_as_recent_def)

lemma spec_as_recent_total: "\<not> spec_as_recent a b \<Longrightarrow> spec_as_recent b a"
  by (auto simp: spec_as_recent_def)

lemma spec_as_recent_antisym:
  "spec_as_recent a b \<Longrightarrow> spec_as_recent b a \<Longrightarrow>
   endYear a = endYear b \<and> startYear a = startYear b"
  by (auto simp: spec_as_recent_def)

lemma set_insort_by: "set (insort_by cmp x ys) = insert x (set ys)"
  by (induction ys) auto

lemma set_sort_by: "set (sort_by cmp xs) = set xs"
  by (induction xs) (simp_all add: sort_by_def set_insort_by)

text \<open>The head of the sorted array is at least as recent as every entry.\<close>

lemma insort_by_head:
  assumes "\<forall>m\<in>set ys. spec_as_recent (hd ys) m"
  shows "\<forall>m\<in>set (insort_by compareFn x ys). spec_as_recent (hd (insort_by compareFn x ys)) m"
proof (cases ys)
  case Nil
  then show ?thesis by (simp add: spec_as_recent_refl)
next
  case (Cons y ys')
  show ?thesis
  proof (cases "compareFn x y \<le> 0")
    case True
    then have xy: "spec_as_recent x y" by (simp add: compareFn_le)
    have "\<forall>m\<in>set (y # ys'). spec_as_recent x m"
      using assms Cons xy by (auto intro: spec_as_recent_trans)
    with True Cons show ?thesis by (simp add: spec_as_recent_refl)
  next
    case False
    then have yx: "spec_as_recent y x"
      by (simp add: compareFn_le spec_as_recent_total)
    from False Cons have h: "insort_by compareFn x ys = y # insort_by compareFn x ys'"
      by simp
    have "\<forall>m\<in>insert x (set ys'). spec_as_recent y m"
      using assms Cons yx by auto
    then show ?thesis
      unfolding h by (simp add: set_insort_by spec_as_recent_refl)
  qed
qed

lemma sort_by_head:
  "\<forall>m\<in>set (sort_by compareFn xs). spec_as_recent (hd (sort_by compareFn xs)) m"
proof (induction xs)
  case Nil
  show ?case by (simp add: sort_by_def)
next
  case (Cons x xs)
  have "sort_by compareFn (x # xs) = insort_by compareFn x (sort_by compareFn xs)"
    by (simp add: sort_by_def)
  with insort_by_head[OF Cons.IH, of x] show ?case by simp
qed

lemma sort_by_first:
  assumes "xs \<noteq> []"
  obtains m ms where "sort_by compareFn xs = m # ms" and "m \<in> set xs"
    and "\<forall>m'\<in>set xs. spec_as_recent m m'"
proof -
  have "set (sort_by compareFn xs) \<noteq> {}" using assms by (simp add: set_sort_by)
  then obtain m ms where s: "sort_by compareFn xs = m # ms"
    by (cases "sort_by compareFn xs") auto
  have "m \<in> set (sort_by compareFn xs)" unfolding s by simp
  then have a: "m \<in> set xs" by (simp add: set_sort_by)
  have "\<forall>m'\<in>set (sort_by compareFn xs). spec_as_recent (hd (sort_by compareFn xs)) m'"
    by (rule sort_by_head)
  moreover have "hd (sort_by compareFn xs) = m" unfolding s by simp
  ultimately have b: "\<forall>m'\<in>set xs. spec_as_recent m m'"
    by (simp only: set_sort_by)
  show ?thesis by (rule that[OF s a b])
qed

lemma selectLatest_empty:
  "collectMatches html = [] \<Longrightarrow>
   selectLatest html = Inl (Error ''No municipality Excel files found on ANP page'')"
  by (simp add: selectLatest_def)

lemma selectLatest_first:
  assumes "collectMatches html \<noteq> []"
  obtains m where "selectLatest html = Inr m" and "m \<in> set (collectMatches html)"
    and "\<forall>m'\<in>set (collectMatches html). spec_as_recent m m'"
proof -
  from sort_by_first[OF assms] obtain m ms where
    s: "sort_by compareFn (collectMatches html) = m # ms" and a: "m \<in> set (collectMatches html)"
    and b: "\<forall>m'\<in>set (collectMatches html). spec_as_recent m m'"
    by blast
  have r: "selectLatest html = Inr m" using assms s by (simp add: selectLatest_def)
  show ?thesis by (rule that[OF r a b])
qed

text \<open>The years of the chosen entry depend on the set of candidates only.\<close>

lemma selectLatest_years:
  assumes ne: "collectMatches html \<noteq> []"
    and eq: "set (collectMatches html') = set (collectMatches html)"
  shows "map_sum id (\<lambda>m. (endYear m, startYear m)) (selectLatest html')
         = map_sum id (\<lambda>m. (endYear m, startYear m)) (selectLatest html)"
proof -
  from eq ne have ne': "collectMatches html' \<noteq> []" by auto
  from selectLatest_first[OF ne] obtain m where
    m: "selectLatest html = Inr m" "m \<in> set (collectMatches html)"
       "\<forall>m'\<in>set (collectMatches html). spec_as_recent m m'" by blast
  from selectLatest_first[OF ne'] obtain n where
    n: "selectLatest html' = Inr n" "n \<in> set (collectMatches html')"
       "\<forall>m'\<in>set (collectMatches html'). spec_as_recent n m'" by blast
  from m n eq have "spec_as_recent m n" "spec_as_recent n m" by auto
  then have "endYear m = endYear n \<and> startYear m = startYear n"
    by (rule spec_as_recent_antisym)
  with m(1) n(1) show ?thesis by simp
qed

text \<open>
  Claim C4. The candidates are all the matches of the expression anchored at
  \<^verbatim>\<open>href\<close>, and those of the looser expression only when the first has none;
  with no candidate at all the search fails with an error; otherwise it returns
  a candidate that is at least as recent as every candidate (the largest end
  year, and among those the largest start year), and the years of the choice
  are the same for any other page with the same set of candidates, whatever
  their order.
\<close>

theorem C4_latest_file:
  "(hrefMatches html = [] \<and> altMatches html = [] \<longrightarrow>
      selectLatest html = Inl (Error ''No municipality Excel files found on ANP page''))
   \<and> (hrefMatches html \<noteq> [] \<longrightarrow>
      (\<exists>m\<in>set (hrefMatches html). selectLatest html = Inr m
         \<and> (\<forall>m'\<in>set (hrefMatches html). spec_as_recent m m')))
   \<and> (hrefMatches html = [] \<and> altMatches html \<noteq> [] \<longrightarrow>
      (\<exists>m\<in>set (altMatches html). selectLatest html = Inr m
         \<and> (\<forall>m'\<in>set (altMatches html). spec_as_recent m m')))
   \<and> (\<forall>html'. collectMatches html \<noteq> [] \<and> set (collectMatches html') = set (collectMatches html) \<longrightarrow>
         map_sum id (\<lambda>m. (endYear m, startYear m)) (selectLatest html')
         = map_sum id (\<lambda>m. (endYear m, startYear m)) (selectLatest html))"
proof (intro conjI impI allI)
  assume "hrefMatches html = [] \<and> altMatches html = []"
  then have "collectMatches html = []" by (simp add: collectMatches_def)
  then show "selectLatest html = Inl (Error ''No municipality Excel files found on ANP page'')"
    by (rule selectLatest_empty)
next
  assume a: "hrefMatches html \<noteq> []"
  then have c: "collectMatches html = hrefMatches html" by (simp add: collectMatches_def)
  with a have "collectMatches html \<noteq> []" by simp
  from selectLatest_first[OF this] show
    "\<exists>m\<in>set (hrefMatches html). selectLatest html = Inr m
         \<and> (\<forall>m'\<in>set (hrefMatches html). spec_as_recent m m')"
    unfolding c by blast
next
  assume a: "hrefMatches html = [] \<and> altMatches html \<noteq> []"
  then have c: "collectMatches html = altMatches html" by (simp add: collectMatches_def)
  with a have "collectMatches html \<noteq> []" by simp
  from selectLatest_first[OF this] show
    "\<exists>m\<in>set (altMatches html). selectLatest html = Inr m
         \<and> (\<forall>m'\<in>set (altMatches html). spec_as_recent m m')"
    unfolding c by blast
next
  fix html'
  assume "collectMatches html \<noteq> [] \<and> set (collectMatches html') = set (collectMatches html)"
  then show "map_sum id (\<lambda>m. (endYear m, startYear m)) (selectLatest html')
         = map_sum id (\<lambda>m. (endYear m, startYear m)) (selectLatest html)"
    using selectLatest_years[of html html'] by simp
qed

theorem C4_latest_file_witness:
  "selectLatest page_a =
     Inr \<lparr>url = ''https://www.gov.br/anp/arquivos/Semanal-Municipio-2024-2025.xlsx'',
          startYear = 2024, endYear = 2025\<rparr>
   \<and> map_sum id (\<lambda>m. (endYear m, startYear m)) (selectLatest page_b)
     = map_sum id (\<lambda>m. (endYear m, startYear m)) (selectLatest page_a)
   \<and> selectLatest page_c =
     Inr \<lparr>url = shlp_base @ ''semanal-municipio-2024-2025.xlsx'',
          startYear = 2024, endYear = 2025\<rparr>
   \<and> selectLatest page_d = Inl (Error ''No municipality Excel files found on ANP page'')"
proof -
  have a: "selectLatest page_a =
     Inr \<lparr>url = ''https://www.gov.br/anp/arquivos/Semanal-Municipio-2024-2025.xlsx'',
          startYear = 2024, endYear = 2025\<rparr>"
    by code_simp
  have c: "selectLatest page_c =
     Inr \<lparr>url = shlp_base @ ''semanal-municipio-2024-2025.xlsx'',
          startYear = 2024, endYear = 2025\<rparr>"
    by code_simp
  have ne: "collectMatches page_a \<noteq> []" by code_simp
  have eq: "set (collectMatches page_b) = set (collectMatches page_a)" by code_simp
  have d: "hrefMatches page_d = [] \<and> altMatches page_d = []" by code_simp
  note th = C4_latest_file[of page_a]
  from th ne eq have b: "map_sum id (\<lambda>m. (endYear m, startYear m)) (selectLatest page_b)
     = map_sum id (\<lambda>m. (endYear m, startYear m)) (selectLatest page_a)"
    by blast
  from C4_latest_file[of page_d] d
  have e: "selectLatest page_d = Inl (Error ''No municipality Excel files found on ANP page'')"
    by blast
  show ?thesis using a b c e by (intro conjI)
qed

section \<open>The pipeline from the responses\<close>

text \<open>A response that is not a success fails the run with its status; a success
  hands the rows to the extraction.\<close>

lemma fetchAndProcessExcel_ok:
  "ok st \<Longrightarrow> fetchAndProcessExcel h now (Response st rows) = processRows h None now rows"
  by (simp add: fetchAndProcessExcel_def)

lemma fetchAndProcessExcel_status:
  "fetchAndProcessExcel sample_host 0 (Response 503 c1_rows)
     = Inl (Error ''Failed to fetch Excel: 503'')"
  by code_simp

text \<open>The three forms of address: a path from the root of the site, an absolute
  address, and a bare file name.\<close>

lemma findLatestExcelUrl_forms:
  "findLatestExcelUrl (Response 200 (href ''/anp/arquivos/semanal-municipio-2023-2025.xlsx''))
     = Inr ''https://www.gov.br/anp/arquivos/semanal-municipio-2023-2025.xlsx''"
  "findLatestExcelUrl (Response 200 page_a)
     = Inr ''https://www.gov.br/anp/arquivos/Semanal-Municipio-2024-2025.xlsx''"
  "findLatestExcelUrl (Response 200 (href ''semanal-municipio-2022-2023.xlsx''))
     = Inr (shlp_base @ ''semanal-municipio-2022-2023.xlsx'')"
  "findLatestExcelUrl (Response 200 page_d)
     = Inl (Error ''No municipality Excel files found on ANP page'')"
  by code_simp+

lemma fetchAndProcessExcel_latest_source:
  "map_sum id sourceUrl
     (fetchAndProcessExcel_latest sample_host 0 (Response 200 page_c) (\<lambda>u. Response 200 c1_rows))
   = Inr (Some (shlp_base @ ''semanal-municipio-2024-2025.xlsx''))"
  by code_simp

end
